theory Spec2Isabelle
  imports Complex_Main
begin

section \<open>Data model of simpleARDIY.cpp\<close>

text \<open>
  The program is a set of GLUT callbacks over process-wide variables. The model keeps
  those variables in one record, passes it through every callback and returns, beside
  the new record, the list of the library calls the callback made, in order.

  Numbers. The C \<open>int\<close> and \<open>long\<close> variables are \<open>int\<close>: no run considered
  below brings one near the ends of its range. The \<open>float\<close> and \<open>ARdouble\<close>
  variables are \<open>real\<close>: rounding is not modelled, and a confidence is a number (never
  a NaN). The constants 80.0, 40.0f, 1.5, 2.0, 45.0f and 360.0f and the angles of the
  concrete runs below are binary fractions, on which float arithmetic is exact. The
  constants 0.001f and 0.01f of the rate gate are not, but the test
  \<open>(float)d * 0.001f < 0.01f\<close> holds for an integer \<open>d\<close> exactly when \<open>d < 10\<close>, in
  float arithmetic as over the reals (9 gives 0.0090000005, 10 gives 0.0100000007, and
  0.01f is 0.0099999998).
\<close>

type_synonym image = nat
  \<comment> \<open>\<open>ARUint8 *\<close>: the address of a frame buffer; \<open>NULL\<close> is \<open>None\<close>\<close>

type_synonym trans = "real list list"
  \<comment> \<open>\<open>ARdouble [3][4]\<close>\<close>

datatype GLMmodel = GLMmodel string
  \<comment> \<open>the mesh handle, named by the file it was read from\<close>

text \<open>
  Modelled from the spec: the headers AR/ar.h and AR/gsub_lite.h are not part of the
  repository, so the types below hold what the spec's data model lists (a marker
  hypothesis has an identity, a confidence and four corners; the detector state holds
  the thresholding mode, the manual threshold, the image-processing mode and the debug
  flag) under the names the source uses. The two enumerations read by a \<open>switch\<close> with
  a \<open>default\<close> branch have one more constructor for every value the source does not
  name. As the spec has it, the detector state is written by the keyboard callback only:
  \<open>arDetectMarker\<close> fills the marker array and leaves the parameters alone.
\<close>

record ARMarkerInfo =
  idm :: int
  cf :: real
  vertex :: "(real \<times> real) list"

datatype AR_LABELING_THRESH_MODE =
    AR_LABELING_THRESH_MODE_MANUAL
  | AR_LABELING_THRESH_MODE_AUTO_MEDIAN
  | AR_LABELING_THRESH_MODE_AUTO_OTSU
  | AR_LABELING_THRESH_MODE_AUTO_ADAPTIVE
  | AR_LABELING_THRESH_MODE_unnamed

datatype AR_IMAGE_PROC_MODE =
    AR_IMAGE_PROC_FRAME_IMAGE
  | AR_IMAGE_PROC_FIELD_IMAGE
  | AR_IMAGE_PROC_unnamed

datatype ARGL_DRAW_MODE = AR_DRAW_BY_GL_DRAW_PIXELS | AR_DRAW_BY_TEXTURE_MAPPING

datatype ARGL_TEXMAP_MODE = AR_DRAW_TEXTURE_FULL_IMAGE | AR_DRAW_TEXTURE_HALF_IMAGE

record ARHandle =
  xsize :: int
  ysize :: int
  arPixelFormat :: int
  arDebug :: int
  arImageProcMode :: AR_IMAGE_PROC_MODE
  arLabelingThreshMode :: AR_LABELING_THRESH_MODE
  arLabelingThresh :: int

record ARGL_CONTEXT_SETTINGS =
  arglDrawMode :: ARGL_DRAW_MODE
  arglTexmapMode :: ARGL_TEXMAP_MODE

text \<open>
  The global variables that the callbacks read and write, and the two function-static
  variables of \<open>mainLoop\<close>. The handles are non-null from the successful end of
  \<open>main\<close> on, which is when the callbacks start to run; the record holds the
  parameters kept behind them.
\<close>

record globals =
  gARTImage :: "image option"
  gARTImageSavePlease :: int
  gARHandle :: ARHandle
  gCallCountMarkerDetect :: int
  gPatt_trans :: trans
  gPatt_found :: int
  gPatt_id :: int
  gArglSettings :: ARGL_CONTEXT_SETTINGS
  gShowHelp :: int
  gShowMode :: int
  gDrawRotate :: int
  gDrawRotateAngle :: real
  gObj :: "GLMmodel option"
  windowWidth :: int
  windowHeight :: int
  imageNumber :: int
  ms_prev :: int

text \<open>
  The library calls with an effect outside the record, as the callbacks make them. A log
  call keeps its format string, without the newline; the calls no property below looks
  into are \<open>Other\<close> with their text. The information and warning logs of
  \<open>setupCamera\<close> are left out. \<open>Sprintf n text\<close> is a call of \<open>sprintf\<close> on a
  buffer of \<open>n\<close> bytes that writes \<open>text\<close> and the terminating zero.
\<close>

datatype call =
    ARLOGe string
  | Sprintf nat string
  | ArVideoGetImage
  | ArVideoSaveImageJPEG int int int image string int int
  | ArDetectMarker image
  | ArGetTransMatSquare ARMarkerInfo real
  | GlutPostRedisplay
  | ArUtilTimerReset
  | GlmReadOBJ string
  | GlmUnitize
  | GlmScale real
  | GlmDelete
  | GlPushMatrix
  | GlRotatef real real real real
  | GlTranslatef real real real
  | GlmDraw string
  | GlPopMatrix
  | ArglDispImage "image option" real
  | ArglCameraFrustumRH real real
  | ArglCameraViewRH trans real
  | GlOrtho real real real real real real
  | GlViewport int int int int
  | PrintMode
  | PrintHelpKeys
  | ArglCleanup
  | ArPattDetach
  | ArPattDeleteHandle
  | ArVideoCapStop
  | Ar3DDeleteHandle
  | ArDeleteHandle
  | ArParamLTFree
  | ArVideoClose
  | Other string

datatype outcome = Return globals | Exit int

definition TRUE :: int where "TRUE = 1"
definition FALSE :: int where "FALSE = 0"

definition lnot :: "int \<Rightarrow> int" where
  \<comment> \<open>the C operator \<open>!\<close>\<close>
  "lnot x = (if x = 0 then 1 else 0)"

definition VIEW_SCALEFACTOR :: real where "VIEW_SCALEFACTOR = 1.0"
definition VIEW_DISTANCE_MIN :: real where "VIEW_DISTANCE_MIN = 40.0"
definition VIEW_DISTANCE_MAX :: real where "VIEW_DISTANCE_MAX = 10000.0"

definition gPatt_width :: real where "gPatt_width = 80.0"
definition markerSize :: real where "markerSize = 40.0"

section \<open>Drawing\<close>

definition DrawObj :: "globals \<Rightarrow> call list" where
  "DrawObj g =
     [GlPushMatrix,
      GlRotatef (gDrawRotateAngle g) 0 0 1,
      GlTranslatef 0 0 (markerSize / 2.0),
      GlmDraw ''GLM_SMOOTH | GLM_MATERIAL'',
      GlPopMatrix]"

definition DrawObjUpdate :: "real \<Rightarrow> globals \<Rightarrow> globals" where
  "DrawObjUpdate timeDelta g =
     (if gDrawRotate g \<noteq> 0 then
        (let a = gDrawRotateAngle g + timeDelta * 45.0
         in g\<lparr>gDrawRotateAngle := (if a > 360.0 then a - 360.0 else a)\<rparr>)
      else g)"

definition Display :: "globals \<Rightarrow> call list \<times> outcome" where
  "Display g =
     ([Other ''glDrawBuffer(GL_BACK)'',
       Other ''glClear(GL_COLOR_BUFFER_BIT | GL_DEPTH_BUFFER_BIT)'',
       ArglDispImage (gARTImage g) 1.0,
       ArglCameraFrustumRH VIEW_DISTANCE_MIN VIEW_DISTANCE_MAX,
       Other ''glMatrixMode(GL_PROJECTION)'',
       Other ''glLoadMatrix(p)'',
       Other ''glMatrixMode(GL_MODELVIEW)'',
       Other ''glLoadIdentity()'',
       Other ''glEnable(GL_LIGHTING)'',
       Other ''glEnable(GL_LIGHT0)'',
       Other ''glEnable(GL_DEPTH_TEST)'']
      @ (if gPatt_found g \<noteq> 0 then
           [ArglCameraViewRH (gPatt_trans g) VIEW_SCALEFACTOR,
            Other ''glLoadMatrix(m)''] @ DrawObj g
         else [])
      @ [Other ''glMatrixMode(GL_PROJECTION)'',
         Other ''glLoadIdentity()'',
         GlOrtho 0 (real_of_int (windowWidth g)) 0 (real_of_int (windowHeight g)) (- 1.0) 1.0,
         Other ''glMatrixMode(GL_MODELVIEW)'',
         Other ''glLoadIdentity()'',
         Other ''glDisable(GL_LIGHTING)'',
         Other ''glDisable(GL_DEPTH_TEST)'']
      @ (if gShowMode g \<noteq> 0 then [PrintMode] else [])
      @ (if gShowHelp g \<noteq> 0 then (if gShowHelp g = 1 then [PrintHelpKeys] else []) else [])
      @ [Other ''glutSwapBuffers()''],
      Return (g\<lparr>gARTImage := None\<rparr>))"

definition Reshape :: "int \<Rightarrow> int \<Rightarrow> globals \<Rightarrow> call list \<times> outcome" where
  "Reshape w h g =
     ([Other ''glClear(GL_COLOR_BUFFER_BIT | GL_DEPTH_BUFFER_BIT)'', GlViewport 0 0 w h],
      Return (g\<lparr>windowWidth := w, windowHeight := h\<rparr>))"

section \<open>Teardown\<close>

text \<open>
  \<open>cleanup\<close> also sets \<open>gArglSettings\<close> and \<open>gObj\<close> to \<open>NULL\<close>; every call of it
  in the source is followed by \<open>exit\<close>, so only its calls are kept.
\<close>

definition cleanup :: "GLMmodel option \<Rightarrow> call list" where
  "cleanup obj =
     [ArglCleanup, ArPattDetach, ArPattDeleteHandle, ArVideoCapStop, Ar3DDeleteHandle,
      ArDeleteHandle, ArParamLTFree, ArVideoClose]
     @ (if obj \<noteq> None then [GlmDelete] else [])"

section \<open>The keyboard callback\<close>

definition Keyboard_thresh :: "int \<Rightarrow> globals \<Rightarrow> globals" where
  \<comment> \<open>the tail of \<open>Keyboard\<close>, after the \<open>switch\<close>\<close>
  "Keyboard_thresh threshChange g =
     (if threshChange \<noteq> 0 then
        (let threshhold = arLabelingThresh (gARHandle g) + threshChange;
             threshhold = (if threshhold < 0 then 0 else threshhold);
             threshhold = (if threshhold > 255 then 255 else threshhold)
         in g\<lparr>gARHandle := (gARHandle g)\<lparr>arLabelingThresh := threshhold\<rparr>\<rparr>)
      else g)"

definition Keyboard :: "char \<Rightarrow> globals \<Rightarrow> call list \<times> outcome" where
  "Keyboard key g =
     (if key = CHR 0x1B \<or> key = CHR ''Q'' \<or> key = CHR ''q'' then
        (cleanup (gObj g), Exit 0)
      else if key = CHR '' '' then
        ([], Return (Keyboard_thresh 0 (g\<lparr>gDrawRotate := lnot (gDrawRotate g)\<rparr>)))
      else if key = CHR ''X'' \<or> key = CHR ''x'' then
        (let mode = (case arImageProcMode (gARHandle g) of
                       AR_IMAGE_PROC_FRAME_IMAGE \<Rightarrow> AR_IMAGE_PROC_FIELD_IMAGE
                     | AR_IMAGE_PROC_FIELD_IMAGE \<Rightarrow> AR_IMAGE_PROC_FRAME_IMAGE
                     | AR_IMAGE_PROC_unnamed \<Rightarrow> AR_IMAGE_PROC_FRAME_IMAGE)
         in ([], Return (Keyboard_thresh 0
                  (g\<lparr>gARHandle := (gARHandle g)\<lparr>arImageProcMode := mode\<rparr>\<rparr>))))
      else if key = CHR ''C'' \<or> key = CHR ''c'' then
        (let a = gArglSettings g;
             a' = (if arglDrawMode a = AR_DRAW_BY_GL_DRAW_PIXELS then
                     a\<lparr>arglDrawMode := AR_DRAW_BY_TEXTURE_MAPPING,
                       arglTexmapMode := AR_DRAW_TEXTURE_FULL_IMAGE\<rparr>
                   else if arglTexmapMode a = AR_DRAW_TEXTURE_FULL_IMAGE then
                     a\<lparr>arglTexmapMode := AR_DRAW_TEXTURE_HALF_IMAGE\<rparr>
                   else a\<lparr>arglDrawMode := AR_DRAW_BY_GL_DRAW_PIXELS\<rparr>)
         in ([ARLOGe ''*** Camera - %f (frame/sec)'', ArUtilTimerReset],
             Return (Keyboard_thresh 0
               (g\<lparr>gArglSettings := a', gCallCountMarkerDetect := 0\<rparr>))))
      else if key = CHR ''a'' \<or> key = CHR ''A'' then
        (let modea = (case arLabelingThreshMode (gARHandle g) of
                        AR_LABELING_THRESH_MODE_MANUAL \<Rightarrow> AR_LABELING_THRESH_MODE_AUTO_MEDIAN
                      | AR_LABELING_THRESH_MODE_AUTO_MEDIAN \<Rightarrow> AR_LABELING_THRESH_MODE_AUTO_OTSU
                      | AR_LABELING_THRESH_MODE_AUTO_OTSU \<Rightarrow> AR_LABELING_THRESH_MODE_AUTO_ADAPTIVE
                      | AR_LABELING_THRESH_MODE_AUTO_ADAPTIVE \<Rightarrow> AR_LABELING_THRESH_MODE_MANUAL
                      | AR_LABELING_THRESH_MODE_unnamed \<Rightarrow> AR_LABELING_THRESH_MODE_MANUAL)
         in ([], Return (Keyboard_thresh 0
                  (g\<lparr>gARHandle := (gARHandle g)\<lparr>arLabelingThreshMode := modea\<rparr>\<rparr>))))
      else if key = CHR ''-'' then
        ([], Return (Keyboard_thresh (- 5) g))
      else if key = CHR ''+'' \<or> key = CHR ''='' then
        ([], Return (Keyboard_thresh 5 g))
      else if key = CHR ''D'' \<or> key = CHR ''d'' then
        ([], Return (Keyboard_thresh 0
               (g\<lparr>gARHandle := (gARHandle g)\<lparr>arDebug := lnot (arDebug (gARHandle g))\<rparr>\<rparr>)))
      else if key = CHR ''s'' \<or> key = CHR ''S'' then
        ([], Return (Keyboard_thresh 0
               (if lnot (gARTImageSavePlease g) \<noteq> 0 then g\<lparr>gARTImageSavePlease := TRUE\<rparr>
                else g)))
      else if key = CHR ''?'' \<or> key = CHR ''/'' then
        (let h = gShowHelp g + 1
         in ([], Return (Keyboard_thresh 0 (g\<lparr>gShowHelp := (if h > 1 then 0 else h)\<rparr>))))
      else if key = CHR ''m'' \<or> key = CHR ''M'' then
        ([], Return (Keyboard_thresh 0 (g\<lparr>gShowMode := lnot (gShowMode g)\<rparr>)))
      else ([], Return (Keyboard_thresh 0 g)))"

section \<open>The idle callback\<close>

text \<open>
  What one run of \<open>mainLoop\<close> reads from outside the program: the millisecond clock,
  the frame source, the result of the JPEG save, the detector's result with the marker
  array it fills (\<open>marker_num\<close> is the length of the list), and the pose solver, which
  returns the residual and the transform.
\<close>

record tick =
  glutGet_ELAPSED_TIME :: int
  arVideoGetImage :: "image option"
  arVideoSaveImageJPEG :: int
  arDetectMarker :: int
  markerInfo :: "ARMarkerInfo list"
  arGetTransMatSquare :: "ARMarkerInfo \<Rightarrow> real \<Rightarrow> real \<times> trans"

fun decimal :: "nat \<Rightarrow> string" where
  "decimal n =
     (if n < 10 then [''0123456789'' ! n]
      else decimal (n div 10) @ [''0123456789'' ! (n mod 10)])"

declare decimal.simps [simp del]

definition sprintf_04d :: "int \<Rightarrow> string" where
  \<comment> \<open>the conversion \<open>%04d\<close>: at least four characters, padded with zeros after the sign\<close>
  "sprintf_04d n =
     (if n < 0 then
        (let ds = decimal (nat (- n)) in CHR ''-'' # replicate (3 - length ds) CHR ''0'' @ ds)
      else
        (let ds = decimal (nat n) in replicate (4 - length ds) CHR ''0'' @ ds))"

definition overrun :: "call \<Rightarrow> bool" where
  \<comment> \<open>the call writes past the end of its buffer: undefined behaviour in C\<close>
  "overrun c = (case c of Sprintf n text \<Rightarrow> n < length text + 1 | _ \<Rightarrow> False)"

text \<open>
  The block under \<open>if (gARTImageSavePlease)\<close>. The name is printed into
  \<open>char imageNumberText[15]\<close>, which holds 14 characters and the terminating zero. The
  call of \<open>sprintf\<close> is kept in the list with the size of the buffer, so that a run whose
  list has a call with \<open>overrun\<close> is a run with undefined behaviour from that call on:
  C gives no meaning to what follows it, and the list and the state after such a call are
  those of an implementation on which the byte written past the buffer does no harm.
\<close>

definition mainLoop_save :: "tick \<Rightarrow> image \<Rightarrow> globals \<Rightarrow> call list \<times> globals" where
  "mainLoop_save e img g =
     (if gARTImageSavePlease g \<noteq> 0 then
        (let imageNumberText = ''image-'' @ sprintf_04d (imageNumber g) @ ''.jpg'';
             g1 = g\<lparr>imageNumber := imageNumber g + 1\<rparr>
         in (Sprintf 15 imageNumberText
             # ArVideoSaveImageJPEG (xsize (gARHandle g1)) (ysize (gARHandle g1))
                 (arPixelFormat (gARHandle g1)) img imageNumberText 75 0
             # (if arVideoSaveImageJPEG e < 0 then [ARLOGe ''Error saving video image.'']
                else []),
             g1\<lparr>gARTImageSavePlease := FALSE\<rparr>))
      else ([], g))"

function mainLoop_select :: "ARMarkerInfo list \<Rightarrow> int \<Rightarrow> nat \<Rightarrow> int \<Rightarrow> int" where
  \<comment> \<open>the \<open>for\<close> loop over \<open>j\<close>, returning the final \<open>k\<close>\<close>
  "mainLoop_select mi patt_id j k =
     (if j < length mi then
        mainLoop_select mi patt_id (Suc j)
          (if idm (mi ! j) = patt_id then
             (if k = - 1 then int j
              else if cf (mi ! j) > cf (mi ! nat k) then int j
              else k)
           else k)
      else k)"
  by pat_completeness auto
termination
  by (relation "measure (\<lambda>(mi, patt_id, j, k). length mi - j)") auto

declare mainLoop_select.simps [simp del]

definition mainLoop :: "tick \<Rightarrow> globals \<Rightarrow> call list \<times> outcome" where
  "mainLoop e g =
     (let ms = glutGet_ELAPSED_TIME e;
          s_elapsed = real_of_int (ms - ms_prev g) * 0.001
      in if s_elapsed < 0.01 then ([], Return g)
         else
           (let g1 = DrawObjUpdate s_elapsed (g\<lparr>ms_prev := ms\<rparr>)
            in case arVideoGetImage e of
                 None \<Rightarrow> ([ArVideoGetImage], Return g1)
               | Some img \<Rightarrow>
                   (let (saved, g2) = mainLoop_save e img (g1\<lparr>gARTImage := Some img\<rparr>);
                        g3 = g2\<lparr>gCallCountMarkerDetect := gCallCountMarkerDetect g2 + 1\<rparr>
                    in if arDetectMarker e < 0 then
                         (ArVideoGetImage # saved @ [ArDetectMarker img], Exit (- 1))
                       else
                         (let k = mainLoop_select (markerInfo e) (gPatt_id g3) 0 (- 1)
                          in if k \<noteq> - 1 then
                               (ArVideoGetImage # saved @
                                  [ArDetectMarker img,
                                   ArGetTransMatSquare (markerInfo e ! nat k) gPatt_width,
                                   GlutPostRedisplay],
                                Return (g3\<lparr>gPatt_trans :=
                                             snd (arGetTransMatSquare e (markerInfo e ! nat k)
                                                    gPatt_width),
                                           gPatt_found := TRUE\<rparr>))
                             else
                               (ArVideoGetImage # saved @
                                  [ArDetectMarker img, GlutPostRedisplay],
                                Return (g3\<lparr>gPatt_found := FALSE\<rparr>))))))"

section \<open>Startup\<close>

text \<open>
  What \<open>main\<close> and the two setup functions read from the libraries: the result of each
  call that the source tests. \<open>arCreateHandle\<close> returns the detector state with the
  library's default parameters, \<open>arglSetupForCurrentContext\<close> the renderer's settings.
\<close>

record startup =
  glmReadOBJ :: "GLMmodel option"
  arVideoOpen :: int
  arVideoGetSize :: "int \<times> int \<times> int"
  arVideoGetPixelFormat :: int
  arParamLoad :: int
  arParamLTCreate :: bool
  arCreateHandle :: "ARHandle option"
  arSetPixelFormat :: int
  arSetDebugMode :: int
  ar3DCreateHandle :: bool
  arVideoCapStart :: int
  arPattCreateHandle :: bool
  arPattLoad :: int
  arglSetupForCurrentContext :: "ARGL_CONTEXT_SETTINGS option"

text \<open>
  Modelled from the spec: two constants of AR/ar.h, which is not part of the repository.
  The spec says only that invalid pixel formats are rejected and that debug is disabled;
  the values are the library's.
\<close>

definition AR_PIXEL_FORMAT_INVALID :: int where "AR_PIXEL_FORMAT_INVALID = - 1"
definition AR_DEBUG_DISABLE :: int where "AR_DEBUG_DISABLE = 0"

definition setupCamera :: "startup \<Rightarrow> call list \<times> ARHandle option" where
  "setupCamera su =
     (if arVideoOpen su < 0 then
        ([ARLOGe ''setupCamera(): Unable to open connection to camera.''], None)
      else if fst (arVideoGetSize su) < 0 then
        ([ARLOGe ''setupCamera(): Unable to determine camera frame size.'', ArVideoClose], None)
      else if arVideoGetPixelFormat su = AR_PIXEL_FORMAT_INVALID then
        ([ARLOGe ''setupCamera(): Camera is using unsupported pixel format.'', ArVideoClose],
         None)
      else if arParamLoad su < 0 then
        ([ARLOGe ''setupCamera(): Error loading parameter file for camera.'', ArVideoClose],
         None)
      else if \<not> arParamLTCreate su then
        ([ARLOGe ''setupCamera(): Error: arParamLTCreate.''], None)
      else
        (case arCreateHandle su of
           None \<Rightarrow> ([ARLOGe ''setupCamera(): Error: arCreateHandle.''], None)
         | Some h \<Rightarrow>
             if arSetPixelFormat su < 0 then
               ([ARLOGe ''setupCamera(): Error: arSetPixelFormat.''], None)
             else if arSetDebugMode su < 0 then
               ([ARLOGe ''setupCamera(): Error: arSetDebugMode.''], None)
             else if \<not> ar3DCreateHandle su then
               ([ARLOGe ''setupCamera(): Error: ar3DCreateHandle.''], None)
             else if arVideoCapStart su \<noteq> 0 then
               ([ARLOGe ''setupCamera(): Unable to begin camera data capture.''], None)
             else
               ([], Some (h\<lparr>xsize := fst (snd (arVideoGetSize su)),
                           ysize := snd (snd (arVideoGetSize su)),
                           arPixelFormat := arVideoGetPixelFormat su,
                           arDebug := AR_DEBUG_DISABLE\<rparr>))))"

definition setupMarker :: "startup \<Rightarrow> call list \<times> int option" where
  "setupMarker su =
     (if \<not> arPattCreateHandle su then
        ([ARLOGe ''setupMarker(): Error: arPattCreateHandle.''], None)
      else if arPattLoad su < 0 then
        ([ARLOGe ''setupMarker(): Error loading pattern file.'', ArPattDeleteHandle], None)
      else ([Other ''arPattAttach''], Some (arPattLoad su)))"

definition main_load :: "call list" where
  \<comment> \<open>the calls of \<open>main\<close> once the mesh is read, up to \<open>glutInit\<close>\<close>
  "main_load =
     [GlmReadOBJ ''Data/bunny.obj'', GlmUnitize, GlmScale (1.5 * markerSize),
      Other ''glutInit'']"

definition main_window :: "call list" where
  \<comment> \<open>\<open>windowed\<close> is \<open>TRUE\<close> and never written\<close>
  "main_window =
     [Other ''glutInitDisplayMode(GLUT_DOUBLE | GLUT_RGBA | GLUT_DEPTH)'',
      Other ''glutInitWindowSize(640, 480)'',
      Other ''glutCreateWindow'']"

definition main_register :: "call list" where
  "main_register =
     [Other ''arglSetupDebugMode'', ArUtilTimerReset,
      Other ''glutDisplayFunc(Display)'', Other ''glutVisibilityFunc(Visibility)'',
      Other ''glutReshapeFunc(Reshape)'', Other ''glutKeyboardFunc(Keyboard)'',
      Other ''glutMainLoop'']"

definition main :: "startup \<Rightarrow> call list \<times> outcome" where
  \<comment> \<open>\<open>Return\<close> is the state in which \<open>glutMainLoop\<close> starts to deliver events\<close>
  "main su =
     (case glmReadOBJ su of
        None \<Rightarrow>
          ([GlmReadOBJ ''Data/bunny.obj'', ARLOGe ''main(): Unable to load obj model file.''],
           Exit (- 1))
      | Some obj \<Rightarrow>
          (case setupCamera su of
             (cam, None) \<Rightarrow>
               (main_load @ cam @ [ARLOGe ''main(): Unable to set up AR camera.''], Exit (- 1))
           | (cam, Some h) \<Rightarrow>
               (case setupMarker su of
                  (mk, None) \<Rightarrow>
                    (main_load @ cam @ mk @ [ARLOGe ''main(): Unable to set up AR marker.'']
                       @ cleanup (Some obj),
                     Exit (- 1))
                | (mk, Some patt_id) \<Rightarrow>
                    (case arglSetupForCurrentContext su of
                       None \<Rightarrow>
                         (main_load @ cam @ mk @ main_window
                            @ [ARLOGe ''main(): arglSetupForCurrentContext() returned error.'']
                            @ cleanup (Some obj),
                          Exit (- 1))
                     | Some a \<Rightarrow>
                         (main_load @ cam @ mk @ main_window @ main_register,
                          Return \<lparr>gARTImage = None, gARTImageSavePlease = FALSE,
                                  gARHandle = h, gCallCountMarkerDetect = 0,
                                  gPatt_trans = replicate 3 (replicate 4 0),
                                  gPatt_found = FALSE, gPatt_id = patt_id,
                                  gArglSettings = a, gShowHelp = 1, gShowMode = 1,
                                  gDrawRotate = TRUE, gDrawRotateAngle = 0,
                                  gObj = Some obj, windowWidth = 640, windowHeight = 480,
                                  imageNumber = 0, ms_prev = 0\<rparr>)))))"

section \<open>Runs of the program\<close>

datatype event = Idle tick | Key char | Redraw | Resize int int

fun step :: "event \<Rightarrow> globals \<Rightarrow> call list \<times> outcome" where
  "step (Idle e) g = mainLoop e g"
| "step (Key key) g = Keyboard key g"
| "step Redraw g = Display g"
| "step (Resize w h) g = Reshape w h g"

text \<open>
  Modelled from the spec: what the library's default detector state is taken to satisfy
  (the spec's data model gives the manual threshold the range 0 to 255, and names the
  four thresholding modes and the two image-processing modes).
\<close>

definition default_ARHandle :: "ARHandle \<Rightarrow> bool" where
  "default_ARHandle h =
     (arImageProcMode h \<noteq> AR_IMAGE_PROC_unnamed \<and>
      arLabelingThreshMode h \<noteq> AR_LABELING_THRESH_MODE_unnamed \<and>
      0 \<le> arLabelingThresh h \<and> arLabelingThresh h \<le> 255)"

inductive reachable :: "globals \<Rightarrow> bool" where
  start: "main su = (cs, Return g) \<Longrightarrow> arCreateHandle su = Some h \<Longrightarrow> default_ARHandle h
            \<Longrightarrow> reachable g"
| after: "reachable g \<Longrightarrow> step ev g = (cs, Return g') \<Longrightarrow> reachable g'"

definition accepted :: "tick \<Rightarrow> globals \<Rightarrow> bool" where
  \<comment> \<open>the tick passes the test on \<open>s_elapsed\<close> at the head of \<open>mainLoop\<close>\<close>
  "accepted e g = (\<not> real_of_int (glutGet_ELAPSED_TIME e - ms_prev g) * 0.001 < 0.01)"

fun accepted_times :: "globals \<Rightarrow> event list \<Rightarrow> int list" where
  \<comment> \<open>the clock values of the accepted ticks of a run, in order\<close>
  "accepted_times g [] = []"
| "accepted_times g (ev # evs) =
     (case ev of Idle e \<Rightarrow> (if accepted e g then [glutGet_ELAPSED_TIME e] else []) | _ \<Rightarrow> [])
     @ (case snd (step ev g) of Return g' \<Rightarrow> accepted_times g' evs | Exit _ \<Rightarrow> [])"

fun gaps_from :: "int \<Rightarrow> int list \<Rightarrow> bool" where
  \<comment> \<open>each time is at least 10 after the one before it, the first after \<open>prev\<close>\<close>
  "gaps_from prev [] = True"
| "gaps_from prev (t # ts) = (t - prev \<ge> 10 \<and> gaps_from t ts)"

section \<open>Notions used to state the properties\<close>

definition s_elapsed :: "tick \<Rightarrow> globals \<Rightarrow> real" where
  \<comment> \<open>the local \<open>s_elapsed\<close> of \<open>mainLoop\<close>\<close>
  "s_elapsed e g = real_of_int (glutGet_ELAPSED_TIME e - ms_prev g) * 0.001"

definition mainLoop_frame :: "tick \<Rightarrow> image \<Rightarrow> globals \<Rightarrow> globals" where
  \<comment> \<open>the state of an accepted tick with a frame when \<open>arDetectMarker\<close> is called\<close>
  "mainLoop_frame e img g =
     (let g2 = snd (mainLoop_save e img
                 ((DrawObjUpdate (s_elapsed e g) (g\<lparr>ms_prev := glutGet_ELAPSED_TIME e\<rparr>))
                    \<lparr>gARTImage := Some img\<rparr>))
      in g2\<lparr>gCallCountMarkerDetect := gCallCountMarkerDetect g2 + 1\<rparr>)"

definition advanced :: "real \<Rightarrow> globals \<Rightarrow> real" where
  \<comment> \<open>the value \<open>DrawObjUpdate\<close> leaves in \<open>gDrawRotateAngle\<close>\<close>
  "advanced dt g =
     (if gDrawRotate g \<noteq> 0 then
        (if gDrawRotateAngle g + dt * 45 > 360 then gDrawRotateAngle g + dt * 45 - 360
         else gDrawRotateAngle g + dt * 45)
      else gDrawRotateAngle g)"

fun run :: "event list \<Rightarrow> globals \<Rightarrow> outcome" where
  "run [] g = Return g"
| "run (ev # evs) g = (case snd (step ev g) of Return g' \<Rightarrow> run evs g' | Exit c \<Rightarrow> Exit c)"

definition well_formed :: "globals \<Rightarrow> bool" where
  "well_formed g =
     ((gShowHelp g = 0 \<or> gShowHelp g = 1) \<and>
      (gShowMode g = 0 \<or> gShowMode g = 1) \<and>
      (gDrawRotate g = 0 \<or> gDrawRotate g = 1) \<and>
      (gARTImageSavePlease g = 0 \<or> gARTImageSavePlease g = 1) \<and>
      (gPatt_found g = 0 \<or> gPatt_found g = 1) \<and>
      default_ARHandle (gARHandle g) \<and>
      0 \<le> imageNumber g \<and> 0 \<le> gCallCountMarkerDetect g \<and> 0 \<le> gDrawRotateAngle g)"



definition printMode_draw :: "ARGL_CONTEXT_SETTINGS \<Rightarrow> string" where
  \<comment> \<open>the draw mode as \<open>printMode\<close> names it on the mode panel\<close>
  "printMode_draw a =
     (if arglDrawMode a = AR_DRAW_BY_GL_DRAW_PIXELS then ''GL_DRAW_PIXELS''
      else if arglTexmapMode a = AR_DRAW_TEXTURE_FULL_IMAGE then ''texture mapping''
      else ''texture mapping (even field only)'')"

subsection \<open>A concrete run\<close>

definition demo_handle :: "int \<Rightarrow> ARHandle" where
  "demo_handle thresh =
     \<lparr>xsize = 640, ysize = 480, arPixelFormat = 2, arDebug = 0,
      arImageProcMode = AR_IMAGE_PROC_FRAME_IMAGE,
      arLabelingThreshMode = AR_LABELING_THRESH_MODE_MANUAL,
      arLabelingThresh = thresh\<rparr>"

definition demo_startup :: startup where
  \<comment> \<open>every library call of the startup succeeds\<close>
  "demo_startup =
     \<lparr>glmReadOBJ = Some (GLMmodel ''Data/bunny.obj''),
      arVideoOpen = 0, arVideoGetSize = (0, 640, 480), arVideoGetPixelFormat = 2,
      arParamLoad = 0, arParamLTCreate = True,
      arCreateHandle = Some (demo_handle 100),
      arSetPixelFormat = 0, arSetDebugMode = 0, ar3DCreateHandle = True,
      arVideoCapStart = 0, arPattCreateHandle = True, arPattLoad = 0,
      arglSetupForCurrentContext =
        Some \<lparr>arglDrawMode = AR_DRAW_BY_TEXTURE_MAPPING,
              arglTexmapMode = AR_DRAW_TEXTURE_FULL_IMAGE\<rparr>\<rparr>"

definition demo_globals :: globals where
  \<comment> \<open>the state in which \<open>main\<close> enters the event loop after \<open>demo_startup\<close>\<close>
  "demo_globals =
     \<lparr>gARTImage = None, gARTImageSavePlease = 0, gARHandle = demo_handle 100,
      gCallCountMarkerDetect = 0, gPatt_trans = replicate 3 (replicate 4 0),
      gPatt_found = 0, gPatt_id = 0,
      gArglSettings = \<lparr>arglDrawMode = AR_DRAW_BY_TEXTURE_MAPPING,
                        arglTexmapMode = AR_DRAW_TEXTURE_FULL_IMAGE\<rparr>,
      gShowHelp = 1, gShowMode = 1, gDrawRotate = 1, gDrawRotateAngle = 0,
      gObj = Some (GLMmodel ''Data/bunny.obj''), windowWidth = 640, windowHeight = 480,
      imageNumber = 0, ms_prev = 0\<rparr>"

definition demo_marker :: "int \<Rightarrow> real \<Rightarrow> ARMarkerInfo" where
  "demo_marker i c = \<lparr>idm = i, cf = c, vertex = [(0, 0), (1, 0), (1, 1), (0, 1)]\<rparr>"

definition demo_solver :: "real \<Rightarrow> ARMarkerInfo \<Rightarrow> real \<Rightarrow> real \<times> trans" where
  \<comment> \<open>a pose solver that reports the residual \<open>err\<close> and whose transform shows the
      marker it was given\<close>
  "demo_solver err m w = (err, replicate 3 (replicate 4 (cf m * w)))"

definition demo_tick :: "int \<Rightarrow> image option \<Rightarrow> ARMarkerInfo list \<Rightarrow> tick" where
  \<comment> \<open>a tick at clock \<open>ms\<close> in which the save and the detector succeed\<close>
  "demo_tick ms img mi =
     \<lparr>glutGet_ELAPSED_TIME = ms, arVideoGetImage = img, arVideoSaveImageJPEG = 0,
      arDetectMarker = 0, markerInfo = mi, arGetTransMatSquare = demo_solver 0\<rparr>"

section \<open>Properties\<close>

subsection \<open>The callbacks, branch by branch\<close>

lemma Keyboard_thresh_0 [simp]: "Keyboard_thresh 0 g = g"
  by (simp add: Keyboard_thresh_def)

lemma accepted_iff: "accepted e g \<longleftrightarrow> glutGet_ELAPSED_TIME e - ms_prev g \<ge> 10"
  by (auto simp: accepted_def)

lemma mainLoop_rejected: "\<not> accepted e g \<Longrightarrow> mainLoop e g = ([], Return g)"
  by (simp add: mainLoop_def accepted_def Let_def)

lemma mainLoop_no_frame:
  "accepted e g \<Longrightarrow> arVideoGetImage e = None \<Longrightarrow>
   mainLoop e g = ([ArVideoGetImage],
     Return (DrawObjUpdate (s_elapsed e g) (g\<lparr>ms_prev := glutGet_ELAPSED_TIME e\<rparr>)))"
  by (simp add: mainLoop_def accepted_def Let_def s_elapsed_def)

lemma mainLoop_detect_error:
  "accepted e g \<Longrightarrow> arVideoGetImage e = Some img \<Longrightarrow> arDetectMarker e < 0 \<Longrightarrow>
   mainLoop e g =
     (ArVideoGetImage #
        fst (mainLoop_save e img
               ((DrawObjUpdate (s_elapsed e g) (g\<lparr>ms_prev := glutGet_ELAPSED_TIME e\<rparr>))
                  \<lparr>gARTImage := Some img\<rparr>))
        @ [ArDetectMarker img],
      Exit (- 1))"
  by (simp add: mainLoop_def accepted_def Let_def s_elapsed_def split: prod.splits)

lemma mainLoop_save_snd:
  "snd (mainLoop_save e img g) =
     (if gARTImageSavePlease g \<noteq> 0 then
        g\<lparr>imageNumber := imageNumber g + 1, gARTImageSavePlease := FALSE\<rparr>
      else g)"
  by (simp add: mainLoop_save_def Let_def)

lemma gPatt_id_mainLoop_save [simp]: "gPatt_id (snd (mainLoop_save e img g)) = gPatt_id g"
  by (simp add: mainLoop_save_snd)

lemma gPatt_id_DrawObjUpdate [simp]: "gPatt_id (DrawObjUpdate dt g) = gPatt_id g"
  by (simp add: DrawObjUpdate_def Let_def)

lemma mainLoop_detected:
  assumes "accepted e g" and "arVideoGetImage e = Some img" and "\<not> arDetectMarker e < 0"
  shows "mainLoop e g =
     (let k = mainLoop_select (markerInfo e) (gPatt_id g) 0 (- 1);
          saved = fst (mainLoop_save e img
               ((DrawObjUpdate (s_elapsed e g) (g\<lparr>ms_prev := glutGet_ELAPSED_TIME e\<rparr>))
                  \<lparr>gARTImage := Some img\<rparr>))
      in if k \<noteq> - 1 then
           (ArVideoGetImage # saved
              @ [ArDetectMarker img, ArGetTransMatSquare (markerInfo e ! nat k) gPatt_width,
                 GlutPostRedisplay],
            Return ((mainLoop_frame e img g)
                \<lparr>gPatt_trans := snd (arGetTransMatSquare e (markerInfo e ! nat k) gPatt_width),
                  gPatt_found := TRUE\<rparr>))
         else
           (ArVideoGetImage # saved @ [ArDetectMarker img, GlutPostRedisplay],
            Return ((mainLoop_frame e img g)\<lparr>gPatt_found := FALSE\<rparr>)))"
proof -
  let ?g1 = "(DrawObjUpdate (s_elapsed e g) (g\<lparr>ms_prev := glutGet_ELAPSED_TIME e\<rparr>))
                  \<lparr>gARTImage := Some img\<rparr>"
  obtain saved g2 where sv: "mainLoop_save e img ?g1 = (saved, g2)"
    by (cases "mainLoop_save e img ?g1")
  have "gPatt_id (snd (mainLoop_save e img ?g1)) = gPatt_id ?g1"
    by (rule gPatt_id_mainLoop_save)
  with sv have id: "gPatt_id (g2\<lparr>gCallCountMarkerDetect := gCallCountMarkerDetect g2 + 1\<rparr>)
      = gPatt_id g" by simp
  have gate: "\<not> real_of_int (glutGet_ELAPSED_TIME e - ms_prev g) * 0.001 < 0.01"
    using assms(1) by (simp add: accepted_def)
  have sv': "mainLoop_save e img
     ((DrawObjUpdate (real_of_int (glutGet_ELAPSED_TIME e - ms_prev g) * 0.001)
        (g\<lparr>ms_prev := glutGet_ELAPSED_TIME e\<rparr>))\<lparr>gARTImage := Some img\<rparr>) = (saved, g2)"
    using sv by (simp add: s_elapsed_def)
  show ?thesis
    unfolding mainLoop_def Let_def mainLoop_frame_def
    using gate assms(2,3) id
    by (simp only: if_False option.case sv sv' s_elapsed_def prod.case fst_conv snd_conv
        globals.simps)
qed

subsection \<open>The states a tick returns\<close>

lemma DrawObjUpdate_eq: "DrawObjUpdate dt g = g\<lparr>gDrawRotateAngle := advanced dt g\<rparr>"
  by (simp add: DrawObjUpdate_def advanced_def Let_def)

lemma advanced_ms_prev [simp]: "advanced dt (g\<lparr>ms_prev := x\<rparr>) = advanced dt g"
  by (simp add: advanced_def)

lemma mainLoop_frame_eq:
  "mainLoop_frame e img g =
     g\<lparr>gARTImage := Some img,
       gARTImageSavePlease := FALSE,
       gCallCountMarkerDetect := gCallCountMarkerDetect g + 1,
       gDrawRotateAngle := advanced (s_elapsed e g) g,
       imageNumber := (if gARTImageSavePlease g \<noteq> 0 then imageNumber g + 1 else imageNumber g),
       ms_prev := glutGet_ELAPSED_TIME e\<rparr>"
  by (cases g)
     (simp add: mainLoop_frame_def mainLoop_save_snd DrawObjUpdate_eq Let_def FALSE_def
        advanced_def s_elapsed_def)

lemma mainLoop_Return:
  assumes "mainLoop e g = (cs, Return g')"
  shows "g' = g \<and> \<not> accepted e g \<or>
         accepted e g \<and>
         (g' = g\<lparr>gDrawRotateAngle := advanced (s_elapsed e g) g,
                  ms_prev := glutGet_ELAPSED_TIME e\<rparr> \<and> arVideoGetImage e = None \<or>
          (\<exists>img. arVideoGetImage e = Some img \<and>
             (g' = (mainLoop_frame e img g)\<lparr>gPatt_found := FALSE\<rparr> \<or>
              (\<exists>t. g' = (mainLoop_frame e img g)\<lparr>gPatt_trans := t, gPatt_found := TRUE\<rparr>))))"
proof (cases "accepted e g")
  case False
  with assms show ?thesis by (simp add: mainLoop_rejected)
next
  case acc: True
  show ?thesis
  proof (cases "arVideoGetImage e")
    case None
    with acc assms show ?thesis
      by (cases g) (auto simp: mainLoop_no_frame DrawObjUpdate_eq advanced_def)
  next
    case (Some img)
    show ?thesis
    proof (cases "arDetectMarker e < 0")
      case True
      with acc Some assms show ?thesis by (simp add: mainLoop_detect_error)
    next
      case False
      from mainLoop_detected [OF acc Some False] assms acc Some show ?thesis
        by (auto simp: Let_def split: if_splits)
    qed
  qed
qed

subsection \<open>The selection loop\<close>




subsection \<open>What the reachable states satisfy\<close>

lemma Keyboard_statics_case:
  "(case snd (Keyboard key g) of
      Return g' \<Rightarrow>
        ms_prev g' = ms_prev g \<and> imageNumber g' = imageNumber g \<and>
        gDrawRotateAngle g' = gDrawRotateAngle g \<and> gPatt_found g' = gPatt_found g \<and>
        gPatt_trans g' = gPatt_trans g \<and> gPatt_id g' = gPatt_id g
    | Exit c \<Rightarrow> True)"
  by (simp add: Keyboard_def Keyboard_thresh_def Let_def)

lemma Keyboard_statics:
  "Keyboard key g = (cs, Return g') \<Longrightarrow>
   ms_prev g' = ms_prev g \<and> imageNumber g' = imageNumber g \<and>
   gDrawRotateAngle g' = gDrawRotateAngle g \<and> gPatt_found g' = gPatt_found g \<and>
   gPatt_trans g' = gPatt_trans g \<and> gPatt_id g' = gPatt_id g"
  using Keyboard_statics_case [where key = key and g = g] by simp

lemma Keyboard_flags_case:
  "(case snd (Keyboard key g) of
      Return g' \<Rightarrow>
        gShowHelp g' = (if key = CHR ''?'' \<or> key = CHR ''/'' then
                          (if gShowHelp g + 1 > 1 then 0 else gShowHelp g + 1)
                        else gShowHelp g) \<and>
        gShowMode g' = (if key = CHR ''m'' \<or> key = CHR ''M'' then lnot (gShowMode g)
                        else gShowMode g) \<and>
        gDrawRotate g' = (if key = CHR '' '' then lnot (gDrawRotate g) else gDrawRotate g) \<and>
        gARTImageSavePlease g' =
          (if (key = CHR ''s'' \<or> key = CHR ''S'') \<and> gARTImageSavePlease g = 0 then TRUE
           else gARTImageSavePlease g) \<and>
        gCallCountMarkerDetect g' =
          (if key = CHR ''C'' \<or> key = CHR ''c'' then 0 else gCallCountMarkerDetect g)
    | Exit c \<Rightarrow> True)"
  by (simp add: Keyboard_def Keyboard_thresh_def Let_def lnot_def)

lemma Keyboard_thresh_handle:
  "default_ARHandle (gARHandle g) \<Longrightarrow> default_ARHandle (gARHandle (Keyboard_thresh c g))"
  by (simp add: Keyboard_thresh_def Let_def default_ARHandle_def)

lemma Keyboard_handle_case:
  "default_ARHandle (gARHandle g) \<Longrightarrow>
   (case snd (Keyboard key g) of
      Return g' \<Rightarrow> default_ARHandle (gARHandle g')
    | Exit c \<Rightarrow> True)"
  by (simp add: Keyboard_def Keyboard_thresh_handle Let_def)
     (simp add: default_ARHandle_def
        split: AR_IMAGE_PROC_MODE.splits AR_LABELING_THRESH_MODE.splits)

lemma Keyboard_well_formed:
  assumes "well_formed g" and "Keyboard key g = (cs, Return g')"
  shows "well_formed g'"
proof -
  from assms(1) have h: "default_ARHandle (gARHandle g)" by (simp add: well_formed_def)
  from Keyboard_flags_case [where key = key and g = g] assms(2)
  have flags: "gShowHelp g' = (if key = CHR ''?'' \<or> key = CHR ''/'' then
                          (if gShowHelp g + 1 > 1 then 0 else gShowHelp g + 1)
                        else gShowHelp g)"
    "gShowMode g' = (if key = CHR ''m'' \<or> key = CHR ''M'' then lnot (gShowMode g)
                        else gShowMode g)"
    "gDrawRotate g' = (if key = CHR '' '' then lnot (gDrawRotate g) else gDrawRotate g)"
    "gARTImageSavePlease g' =
          (if (key = CHR ''s'' \<or> key = CHR ''S'') \<and> gARTImageSavePlease g = 0 then TRUE
           else gARTImageSavePlease g)"
    "gCallCountMarkerDetect g' =
          (if key = CHR ''C'' \<or> key = CHR ''c'' then 0 else gCallCountMarkerDetect g)"
    by simp_all
  from Keyboard_handle_case [OF h, where key = key] assms(2)
  have handle: "default_ARHandle (gARHandle g')"
    by simp
  from Keyboard_statics [OF assms(2)]
  have statics: "imageNumber g' = imageNumber g" "gDrawRotateAngle g' = gDrawRotateAngle g"
    "gPatt_found g' = gPatt_found g" by simp_all
  from assms(1) have old:
    "gShowHelp g = 0 \<or> gShowHelp g = 1" "gShowMode g = 0 \<or> gShowMode g = 1"
    "gDrawRotate g = 0 \<or> gDrawRotate g = 1"
    "gARTImageSavePlease g = 0 \<or> gARTImageSavePlease g = 1"
    "gPatt_found g = 0 \<or> gPatt_found g = 1" "0 \<le> imageNumber g"
    "0 \<le> gCallCountMarkerDetect g" "0 \<le> gDrawRotateAngle g"
    by (simp_all add: well_formed_def)
  have 1: "gShowHelp g' = 0 \<or> gShowHelp g' = 1"
    using old(1) by (auto simp: flags(1))
  have 2: "gShowMode g' = 0 \<or> gShowMode g' = 1"
    using old(2) by (auto simp: flags(2) lnot_def)
  have 3: "gDrawRotate g' = 0 \<or> gDrawRotate g' = 1"
    using old(3) by (auto simp: flags(3) lnot_def)
  have 4: "gARTImageSavePlease g' = 0 \<or> gARTImageSavePlease g' = 1"
    using old(4) by (auto simp: flags(4) TRUE_def)
  have 5: "0 \<le> gCallCountMarkerDetect g'"
    using old(7) by (simp add: flags(5))
  show ?thesis
    unfolding well_formed_def statics
    using 1 2 3 4 5 old(5,6,8) handle by (intro conjI) assumption+
qed

lemma advanced_nonneg: "0 \<le> gDrawRotateAngle g \<Longrightarrow> 0 \<le> dt \<Longrightarrow> 0 \<le> advanced dt g"
  by (simp add: advanced_def)

lemma accepted_s_elapsed: "accepted e g \<Longrightarrow> 0 \<le> s_elapsed e g"
  by (simp add: accepted_def s_elapsed_def)

lemma mainLoop_well_formed:
  assumes "well_formed g" and "mainLoop e g = (cs, Return g')"
  shows "well_formed g'"
proof -
  have adv: "accepted e g \<Longrightarrow> 0 \<le> advanced (s_elapsed e g) g"
    using assms(1) by (intro advanced_nonneg accepted_s_elapsed) (simp_all add: well_formed_def)
  from mainLoop_Return [OF assms(2)]
  consider "g' = g"
    | "accepted e g" "g' = g\<lparr>gDrawRotateAngle := advanced (s_elapsed e g) g,
                  ms_prev := glutGet_ELAPSED_TIME e\<rparr>"
    | img where "accepted e g" "g' = (mainLoop_frame e img g)\<lparr>gPatt_found := FALSE\<rparr>"
    | img t where "accepted e g"
        "g' = (mainLoop_frame e img g)\<lparr>gPatt_trans := t, gPatt_found := TRUE\<rparr>"
    by blast
  then show ?thesis
  proof cases
    case 1
    with assms(1) show ?thesis by simp
  next
    case 2
    with assms(1) adv show ?thesis by (simp add: well_formed_def)
  next
    case 3
    with assms(1) adv show ?thesis
      by (simp add: well_formed_def mainLoop_frame_eq TRUE_def FALSE_def)
  next
    case 4
    with assms(1) adv show ?thesis
      by (simp add: well_formed_def mainLoop_frame_eq TRUE_def FALSE_def)
  qed
qed

lemma setupCamera_handle:
  "setupCamera su = (cs, Some h') \<Longrightarrow> arCreateHandle su = Some h \<Longrightarrow> default_ARHandle h \<Longrightarrow>
   default_ARHandle h'"
  by (auto simp: setupCamera_def default_ARHandle_def split: if_splits)

lemma main_well_formed_case:
  "(case snd (main su) of
      Return g \<Rightarrow>
        (\<exists>cs. setupCamera su = (cs, Some (gARHandle g))) \<and>
        gShowHelp g = 1 \<and> gShowMode g = 1 \<and> gDrawRotate g = 1 \<and>
        gARTImageSavePlease g = 0 \<and> gPatt_found g = 0 \<and> imageNumber g = 0 \<and>
        gCallCountMarkerDetect g = 0 \<and> gDrawRotateAngle g = 0 \<and> ms_prev g = 0
    | Exit c \<Rightarrow> True)"
  by (simp add: main_def TRUE_def FALSE_def split: option.splits prod.splits)

lemma main_well_formed:
  assumes "main su = (cs, Return g)" and "arCreateHandle su = Some h" and "default_ARHandle h"
  shows "well_formed g"
proof -
  from main_well_formed_case [of su] assms(1)
  have f: "\<exists>cs. setupCamera su = (cs, Some (gARHandle g))"
    "gShowHelp g = 1" "gShowMode g = 1" "gDrawRotate g = 1"
    "gARTImageSavePlease g = 0" "gPatt_found g = 0" "imageNumber g = 0"
    "gCallCountMarkerDetect g = 0" "gDrawRotateAngle g = 0"
    by simp_all
  from f(1) assms(2,3) have "default_ARHandle (gARHandle g)"
    by (blast intro: setupCamera_handle)
  with f(2-) show ?thesis by (simp add: well_formed_def)
qed

lemma step_well_formed:
  assumes "well_formed g" and "step ev g = (cs, Return g')"
  shows "well_formed g'"
proof (cases ev)
  case (Idle e)
  with assms(2) have "mainLoop e g = (cs, Return g')" by simp
  with assms(1) show ?thesis by (rule mainLoop_well_formed)
next
  case (Key key)
  with assms(2) have "Keyboard key g = (cs, Return g')" by simp
  with assms(1) show ?thesis by (rule Keyboard_well_formed)
next
  case Redraw
  with assms(2) have "g' = g\<lparr>gARTImage := None\<rparr>" by (simp add: Display_def)
  with assms(1) show ?thesis by (simp add: well_formed_def)
next
  case (Resize w h)
  with assms(2) have "g' = g\<lparr>windowWidth := w, windowHeight := h\<rparr>"
    by (simp add: Reshape_def)
  with assms(1) show ?thesis by (simp add: well_formed_def)
qed

lemma reachable_well_formed: "reachable g \<Longrightarrow> well_formed g"
proof (induction rule: reachable.induct)
  case (start su cs g h)
  then show ?case by (rule main_well_formed)
next
  case (after g ev cs g')
  from after.IH after.hyps(2) show ?case by (rule step_well_formed)
qed

subsection \<open>The concrete run\<close>

lemma main_demo:
  "main demo_startup =
     (main_load @ [Other ''arPattAttach''] @ main_window @ main_register, Return demo_globals)"
  by (simp add: main_def demo_startup_def demo_globals_def demo_handle_def setupCamera_def
      setupMarker_def AR_PIXEL_FORMAT_INVALID_def AR_DEBUG_DISABLE_def TRUE_def FALSE_def)

lemma reachable_demo: "reachable demo_globals"
proof (rule reachable.start [OF main_demo])
  show "arCreateHandle demo_startup = Some (demo_handle 100)"
    by (simp add: demo_startup_def)
  show "default_ARHandle (demo_handle 100)"
    by (simp add: default_ARHandle_def demo_handle_def)
qed

subsection \<open>Selection of the marker\<close>



lemma selection_example:
  "mainLoop_select [demo_marker 0 0.4, demo_marker 0 0.7] 0 0 (- 1) = 1 \<and>
   mainLoop_select [demo_marker 0 0.7, demo_marker 1 0.9, demo_marker 0 0.7] 0 0 (- 1) = 0"
  by (simp add: mainLoop_select.simps demo_marker_def)

subsection \<open>The threshold keys\<close>

text \<open>
  Claim C5. From a manual threshold between 0 and 255, the key \<open>-\<close> stores the
  threshold less 5 and the keys \<open>+\<close> and \<open>=\<close> the threshold plus 5, cut to the
  range 0 to 255, and change nothing else; the stored value is again between 0 and 255.
  At 255 the keys \<open>+\<close> and \<open>=\<close>, and at 0 the key \<open>-\<close>, leave the state as it
  is. From 253, three presses of \<open>+\<close> give 255.
\<close>

theorem threshold_clamped:
  assumes "0 \<le> arLabelingThresh (gARHandle g)" and "arLabelingThresh (gARHandle g) \<le> 255"
  shows "(let t = arLabelingThresh (gARHandle g);
              store = (\<lambda>v. g\<lparr>gARHandle := (gARHandle g)\<lparr>arLabelingThresh := v\<rparr>\<rparr>)
          in Keyboard (CHR ''-'') g = ([], Return (store (max 0 (t - 5)))) \<and>
             Keyboard (CHR ''+'') g = ([], Return (store (min 255 (t + 5)))) \<and>
             Keyboard (CHR ''='') g = ([], Return (store (min 255 (t + 5)))) \<and>
             0 \<le> max 0 (t - 5) \<and> max 0 (t - 5) \<le> 255 \<and>
             0 \<le> min 255 (t + 5) \<and> min 255 (t + 5) \<le> 255 \<and>
             (t = 255 \<longrightarrow> Keyboard (CHR ''+'') g = ([], Return g) \<and>
                           Keyboard (CHR ''='') g = ([], Return g)) \<and>
             (t = 0 \<longrightarrow> Keyboard (CHR ''-'') g = ([], Return g)) \<and>
             (t = 253 \<longrightarrow>
                (\<exists>g'. run [Key (CHR ''+''), Key (CHR ''+''), Key (CHR ''+'')] g = Return g' \<and>
                      arLabelingThresh (gARHandle g') = 255)))"
  using assms
  by (simp add: Keyboard_def Keyboard_thresh_def Let_def max_def min_def)

theorem threshold_clamped_witness:
  "(let g = demo_globals\<lparr>gARHandle := demo_handle 253\<rparr>
    in 0 \<le> arLabelingThresh (gARHandle g) \<and> arLabelingThresh (gARHandle g) \<le> 255 \<and>
       Keyboard (CHR ''+'') g = ([], Return (demo_globals\<lparr>gARHandle := demo_handle 255\<rparr>)) \<and>
       Keyboard (CHR ''-'') g = ([], Return (demo_globals\<lparr>gARHandle := demo_handle 248\<rparr>)) \<and>
       (\<exists>g'. run [Key (CHR ''+''), Key (CHR ''+''), Key (CHR ''+'')] g = Return g' \<and>
             arLabelingThresh (gARHandle g') = 255)) \<and>
   (let g = demo_globals\<lparr>gARHandle := demo_handle 255\<rparr>
    in Keyboard (CHR ''+'') g = ([], Return g) \<and> Keyboard (CHR ''='') g = ([], Return g)) \<and>
   (let g = demo_globals\<lparr>gARHandle := demo_handle 0\<rparr>
    in Keyboard (CHR ''-'') g = ([], Return g))"
proof -
  let ?g = "\<lambda>t. demo_globals\<lparr>gARHandle := demo_handle t\<rparr>"
  have h: "arLabelingThresh (demo_handle t) = t" for t
    by (simp add: demo_handle_def)
  have t: "arLabelingThresh (gARHandle (?g t)) = t" for t
    by (simp add: demo_handle_def)
  have s: "(?g t)\<lparr>gARHandle := (gARHandle (?g t))\<lparr>arLabelingThresh := v\<rparr>\<rparr> = ?g v" for t v
    by (simp add: demo_handle_def)
  from threshold_clamped [of "?g 253"] threshold_clamped [of "?g 255"]
    threshold_clamped [of "?g 0"]
  show ?thesis unfolding Let_def t s by (simp add: h)
qed

subsection \<open>The rate gate\<close>

lemma mainLoop_ms_prev:
  assumes "accepted e g" and "mainLoop e g = (cs, Return g')"
  shows "ms_prev g' = glutGet_ELAPSED_TIME e"
  using mainLoop_Return [OF assms(2)] assms(1)
  by (auto simp: mainLoop_frame_eq)

lemma step_ms_prev:
  assumes "step ev g = (cs, Return g')" and "\<And>e. ev = Idle e \<Longrightarrow> \<not> accepted e g"
  shows "ms_prev g' = ms_prev g"
proof (cases ev)
  case (Idle e)
  with assms show ?thesis by (simp add: mainLoop_rejected)
next
  case (Key key)
  with assms(1) have "Keyboard key g = (cs, Return g')" by simp
  then show ?thesis by (simp add: Keyboard_statics)
next
  case Redraw
  with assms(1) have "g' = g\<lparr>gARTImage := None\<rparr>" by (simp add: Display_def)
  then show ?thesis by simp
next
  case (Resize w h)
  with assms(1) have "g' = g\<lparr>windowWidth := w, windowHeight := h\<rparr>"
    by (simp add: Reshape_def)
  then show ?thesis by simp
qed

lemma gaps_accepted_times: "gaps_from (ms_prev g) (accepted_times g evs)"
proof (induction evs arbitrary: g)
  case Nil
  show ?case by simp
next
  case (Cons ev evs)
  obtain cs out where st: "step ev g = (cs, out)" by (cases "step ev g")
  show ?case
  proof (cases "\<exists>e. ev = Idle e \<and> accepted e g")
    case True
    then obtain e where e: "ev = Idle e" "accepted e g" by blast
    then have gap: "glutGet_ELAPSED_TIME e - ms_prev g \<ge> 10" by (simp add: accepted_iff)
    show ?thesis
    proof (cases out)
      case (Return g')
      with st e have "mainLoop e g = (cs, Return g')" by simp
      with e(2) have "ms_prev g' = glutGet_ELAPSED_TIME e" by (rule mainLoop_ms_prev)
      with Cons.IH [of g'] Return st e gap show ?thesis by simp
    next
      case (Exit c)
      with st e gap show ?thesis by simp
    qed
  next
    case False
    then have no: "\<And>e. ev = Idle e \<Longrightarrow> \<not> accepted e g" by blast
    then have hd: "(case ev of Idle e \<Rightarrow> (if accepted e g then [glutGet_ELAPSED_TIME e] else [])
                     | _ \<Rightarrow> []) = []"
      by (cases ev) simp_all
    show ?thesis
    proof (cases out)
      case (Return g')
      with st have "step ev g = (cs, Return g')" by simp
      then have "ms_prev g' = ms_prev g" using no by (rule step_ms_prev)
      with Cons.IH [of g'] Return st hd show ?thesis by simp
    next
      case (Exit c)
      with st hd show ?thesis by simp
    qed
  qed
qed

text \<open>
  Claim C6. A tick whose clock is less than 10 ms after \<open>ms_prev\<close> returns with no
  library call and the state as it was; a tick at least 10 ms after it is accepted and,
  when it returns, has stored its clock in \<open>ms_prev\<close>. No other event writes
  \<open>ms_prev\<close>, so in every run the clock of each accepted tick is at least 10 ms after
  that of the accepted tick before it (and the first at least 10 ms after the starting
  \<open>ms_prev\<close>).
\<close>

theorem rate_gate:
  "(glutGet_ELAPSED_TIME e - ms_prev g < 10 \<longrightarrow> mainLoop e g = ([], Return g)) \<and>
   (10 \<le> glutGet_ELAPSED_TIME e - ms_prev g \<longrightarrow>
      (\<forall>cs g'. mainLoop e g = (cs, Return g') \<longrightarrow> ms_prev g' = glutGet_ELAPSED_TIME e)) \<and>
   (accepted e g \<longleftrightarrow> 10 \<le> glutGet_ELAPSED_TIME e - ms_prev g) \<and>
   gaps_from (ms_prev g) (accepted_times g evs)"
proof (intro conjI impI allI)
  assume "glutGet_ELAPSED_TIME e - ms_prev g < 10"
  then have "\<not> accepted e g" by (simp add: accepted_iff)
  then show "mainLoop e g = ([], Return g)" by (rule mainLoop_rejected)
next
  fix cs g'
  assume late: "10 \<le> glutGet_ELAPSED_TIME e - ms_prev g"
    and ret: "mainLoop e g = (cs, Return g')"
  from late have "accepted e g" by (simp add: accepted_iff)
  then show "ms_prev g' = glutGet_ELAPSED_TIME e" using ret by (rule mainLoop_ms_prev)
next
  show "accepted e g \<longleftrightarrow> 10 \<le> glutGet_ELAPSED_TIME e - ms_prev g" by (rule accepted_iff)
next
  show "gaps_from (ms_prev g) (accepted_times g evs)" by (rule gaps_accepted_times)
qed

theorem rate_gate_witness:
  "mainLoop (demo_tick 9 (Some 7) [demo_marker 0 0.7]) demo_globals = ([], Return demo_globals) \<and>
   mainLoop (demo_tick 10 None []) demo_globals =
     ([ArVideoGetImage], Return (demo_globals\<lparr>gDrawRotateAngle := 9 / 20, ms_prev := 10\<rparr>)) \<and>
   accepted_times demo_globals
     [Idle (demo_tick 9 (Some 7) []), Idle (demo_tick 12 None []), Key (CHR ''s''),
      Idle (demo_tick 21 (Some 7) []), Idle (demo_tick 22 (Some 7) []), Redraw,
      Idle (demo_tick 40 (Some 7) [])] = [12, 22, 40] \<and>
   gaps_from 0 [12, 22, 40]"
proof -
  let ?evs = "[Idle (demo_tick 9 (Some 7) []), Idle (demo_tick 12 None []), Key (CHR ''s''),
      Idle (demo_tick 21 (Some 7) []), Idle (demo_tick 22 (Some 7) []), Redraw,
      Idle (demo_tick 40 (Some 7) [])]"
  have t: "accepted_times demo_globals ?evs = [12, 22, 40]"
    by (simp add: accepted_def demo_tick_def demo_globals_def mainLoop_def Let_def
        DrawObjUpdate_def mainLoop_save_def mainLoop_select.simps Keyboard_def lnot_def
        TRUE_def FALSE_def Display_def)
  have p: "glutGet_ELAPSED_TIME (demo_tick 9 (Some 7) [demo_marker 0 0.7]) - ms_prev demo_globals < 10"
    by (simp add: demo_tick_def demo_globals_def)
  have q: "mainLoop (demo_tick 10 None []) demo_globals =
     ([ArVideoGetImage], Return (demo_globals\<lparr>gDrawRotateAngle := 9 / 20, ms_prev := 10\<rparr>))"
    by (simp add: mainLoop_def Let_def demo_tick_def demo_globals_def DrawObjUpdate_def)
  from rate_gate [of "demo_tick 9 (Some 7) [demo_marker 0 0.7]" demo_globals ?evs] p t
  have "mainLoop (demo_tick 9 (Some 7) [demo_marker 0 0.7]) demo_globals =
          ([], Return demo_globals) \<and>
        accepted_times demo_globals ?evs = [12, 22, 40] \<and> gaps_from 0 [12, 22, 40]"
    by (simp add: demo_globals_def)
  with q show ?thesis by simp
qed

subsection \<open>A tick without a frame\<close>

text \<open>
  Claim C10. An accepted tick for which \<open>arVideoGetImage\<close> returns \<open>NULL\<close> makes
  that one call and returns the state with \<open>ms_prev\<close> set to the clock and the angle
  as \<open>DrawObjUpdate\<close> leaves it (advanced by 45 times the elapsed seconds, less 360
  if that exceeds 360, when \<open>gDrawRotate\<close> is set; unchanged otherwise). Nothing else
  changes: \<open>gPatt_found\<close>, \<open>gPatt_trans\<close>, \<open>gARTImageSavePlease\<close>,
  \<open>imageNumber\<close> and \<open>gCallCountMarkerDetect\<close> are as before, and
  \<open>glutPostRedisplay\<close> is not called.
\<close>

theorem tick_without_frame:
  assumes "10 \<le> glutGet_ELAPSED_TIME e - ms_prev g" and "arVideoGetImage e = None"
  shows "\<exists>g'. mainLoop e g = ([ArVideoGetImage], Return g') \<and>
           g' = g\<lparr>gDrawRotateAngle := advanced (s_elapsed e g) g,
                  ms_prev := glutGet_ELAPSED_TIME e\<rparr> \<and>
           ms_prev g' = glutGet_ELAPSED_TIME e \<and>
           (gDrawRotate g \<noteq> 0 \<longrightarrow>
              gDrawRotateAngle g' =
                (let a = gDrawRotateAngle g + s_elapsed e g * 45
                 in if a > 360 then a - 360 else a)) \<and>
           (gDrawRotate g = 0 \<longrightarrow> gDrawRotateAngle g' = gDrawRotateAngle g) \<and>
           gPatt_found g' = gPatt_found g \<and> gPatt_trans g' = gPatt_trans g \<and>
           gARTImageSavePlease g' = gARTImageSavePlease g \<and>
           imageNumber g' = imageNumber g \<and>
           gCallCountMarkerDetect g' = gCallCountMarkerDetect g \<and>
           GlutPostRedisplay \<notin> set (fst (mainLoop e g))"
proof -
  from assms(1) have acc: "accepted e g" by (simp add: accepted_iff)
  have "mainLoop e g = ([ArVideoGetImage],
          Return (g\<lparr>gDrawRotateAngle := advanced (s_elapsed e g) g,
                    ms_prev := glutGet_ELAPSED_TIME e\<rparr>))"
    using mainLoop_no_frame [OF acc assms(2)]
    by (cases g) (simp add: DrawObjUpdate_eq advanced_def)
  then show ?thesis by (simp add: advanced_def Let_def)
qed

theorem tick_without_frame_witness:
  "10 \<le> glutGet_ELAPSED_TIME (demo_tick 1000 None []) - ms_prev demo_globals \<and>
   arVideoGetImage (demo_tick 1000 None []) = None \<and>
   mainLoop (demo_tick 1000 None []) demo_globals =
     ([ArVideoGetImage], Return (demo_globals\<lparr>gDrawRotateAngle := 45, ms_prev := 1000\<rparr>))"
proof -
  have h: "10 \<le> glutGet_ELAPSED_TIME (demo_tick 1000 None []) - ms_prev demo_globals"
    "arVideoGetImage (demo_tick 1000 None []) = None"
    by (simp_all add: demo_tick_def demo_globals_def)
  have a: "advanced (s_elapsed (demo_tick 1000 None []) demo_globals) demo_globals = 45"
    by (simp add: advanced_def s_elapsed_def demo_tick_def demo_globals_def)
  have m: "glutGet_ELAPSED_TIME (demo_tick 1000 None []) = 1000"
    by (simp add: demo_tick_def)
  from tick_without_frame [OF h] h show ?thesis by (simp add: a m)
qed

subsection \<open>Capture\<close>

lemma decimal_small: "k < 10 \<Longrightarrow> decimal k = [''0123456789'' ! k]"
  by (subst decimal.simps) simp

lemma decimal_large:
  "\<not> k < 10 \<Longrightarrow> decimal k = decimal (k div 10) @ [''0123456789'' ! (k mod 10)]"
  by (subst decimal.simps) simp

lemma decimal_four:
  assumes "m < 10000"
  shows "replicate (4 - length (decimal m)) CHR ''0'' @ decimal m =
           [''0123456789'' ! (m div 1000), ''0123456789'' ! (m div 100 mod 10),
            ''0123456789'' ! (m div 10 mod 10), ''0123456789'' ! (m mod 10)]"
proof -
  have r: "replicate 1 c = [c]" "replicate 2 c = [c, c]" "replicate 3 c = [c, c, c]"
    for c :: char
    by (simp_all add: numeral_eq_Suc)
  consider "m < 10" | "10 \<le> m" "m < 100" | "100 \<le> m" "m < 1000" | "1000 \<le> m"
    by linarith
  then show ?thesis
  proof cases
    case 1
    then have "m div 1000 = 0" "m div 100 = 0" "m div 10 = 0" "m mod 10 = m" by simp_all
    with 1 show ?thesis by (simp add: decimal_small r)
  next
    case 2
    then have d: "m div 10 < 10" "\<not> m < 10" by simp_all
    from 2 have "m div 1000 = 0" "m div 100 = 0" by simp_all
    with d show ?thesis by (simp add: decimal_large decimal_small r)
  next
    case 3
    then have d: "\<not> m < 10" "\<not> m div 10 < 10" "m div 10 div 10 < 10" by simp_all
    have e: "m div 10 div 10 = m div 100" by (simp add: div_mult2_eq [symmetric])
    from 3 have "m div 1000 = 0" by simp
    moreover from d(3) e have "m div 100 mod 10 = m div 100" by simp
    ultimately show ?thesis using d e by (simp add: decimal_large decimal_small r)
  next
    case 4
    with assms have d: "\<not> m < 10" "\<not> m div 10 < 10" "\<not> m div 10 div 10 < 10"
      "m div 10 div 10 div 10 < 10" by simp_all
    have e: "m div 10 div 10 = m div 100" "m div 10 div 10 div 10 = m div 1000"
      by (simp_all add: div_mult2_eq [symmetric])
    from d e show ?thesis by (simp add: decimal_large decimal_small)
  qed
qed

lemma sprintf_04d_digits:
  assumes "0 \<le> n" and "n < 10000"
  shows "sprintf_04d n =
           [''0123456789'' ! (nat n div 1000), ''0123456789'' ! (nat n div 100 mod 10),
            ''0123456789'' ! (nat n div 10 mod 10), ''0123456789'' ! (nat n mod 10)]"
proof -
  from assms have "nat n < 10000" by simp
  from decimal_four [OF this] assms(1) show ?thesis by (simp add: sprintf_04d_def Let_def)
qed

lemma length_decimal_lower: "10 ^ k \<le> n \<Longrightarrow> k < length (decimal n)"
proof (induction n arbitrary: k rule: decimal.induct)
  case (1 n)
  show ?case
  proof (cases k)
    case 0
    then show ?thesis by (cases "n < 10") (simp_all add: decimal_small decimal_large)
  next
    case (Suc k')
    with "1.prems" have big: "\<not> n < 10"
      by (metis One_nat_def le_trans linorder_not_less one_le_numeral one_le_power
          power_Suc mult.right_neutral mult_le_mono2)
    from Suc "1.prems" have "10 ^ k' \<le> n div 10" by (simp add: less_eq_div_iff_mult_less_eq)
    with big have "k' < length (decimal (n div 10))" by (intro "1.IH") auto
    with big Suc show ?thesis by (simp add: decimal_large)
  qed
qed

lemma sprintf_04d_long:
  assumes "10000 \<le> n"
  shows "5 \<le> length (sprintf_04d n)"
proof -
  from assms have "10 ^ 4 \<le> nat n" by simp
  then have "4 < length (decimal (nat n))" by (rule length_decimal_lower)
  with assms show ?thesis by (simp add: sprintf_04d_def Let_def)
qed

lemma replicate_small:
  "replicate 1 c = [c]" "replicate 2 c = [c, c]" "replicate 3 c = [c, c, c]"
  "replicate 4 c = [c, c, c, c]"
  by (simp_all add: numeral_eq_Suc)

lemma sprintf_04d_examples:
  "sprintf_04d 0 = ''0000'' \<and> sprintf_04d 7 = ''0007'' \<and> sprintf_04d 42 = ''0042'' \<and>
   sprintf_04d 9999 = ''9999'' \<and> sprintf_04d 10000 = ''10000''"
  by (simp add: sprintf_04d_def decimal.simps Let_def replicate_small)

lemma step_imageNumber:
  assumes "step ev g = (cs, Return g')"
  shows "imageNumber g \<le> imageNumber g'"
proof (cases ev)
  case (Idle e)
  with assms have "mainLoop e g = (cs, Return g')" by simp
  from mainLoop_Return [OF this]
  consider "g' = g"
    | "g' = g\<lparr>gDrawRotateAngle := advanced (s_elapsed e g) g,
                  ms_prev := glutGet_ELAPSED_TIME e\<rparr>"
    | img where "g' = (mainLoop_frame e img g)\<lparr>gPatt_found := FALSE\<rparr>"
    | img t where "g' = (mainLoop_frame e img g)\<lparr>gPatt_trans := t, gPatt_found := TRUE\<rparr>"
    by blast
  then show ?thesis by cases (simp_all add: mainLoop_frame_eq)
next
  case (Key key)
  with assms have "Keyboard key g = (cs, Return g')" by simp
  then show ?thesis by (simp add: Keyboard_statics)
next
  case Redraw
  with assms have "g' = g\<lparr>gARTImage := None\<rparr>" by (simp add: Display_def)
  then show ?thesis by simp
next
  case (Resize w h)
  with assms have "g' = g\<lparr>windowWidth := w, windowHeight := h\<rparr>"
    by (simp add: Reshape_def)
  then show ?thesis by simp
qed

lemma main_imageNumber:
  assumes "main su = (cs, Return g)"
  shows "imageNumber g = 0"
  using main_well_formed_case [of su] assms by simp

lemma mainLoop_save_fst:
  "gARTImageSavePlease g \<noteq> 0 \<Longrightarrow>
   fst (mainLoop_save e img g) =
     Sprintf 15 (''image-'' @ sprintf_04d (imageNumber g) @ ''.jpg'')
     # ArVideoSaveImageJPEG (xsize (gARHandle g)) (ysize (gARHandle g))
         (arPixelFormat (gARHandle g)) img (''image-'' @ sprintf_04d (imageNumber g) @ ''.jpg'')
         75 0
     # (if arVideoSaveImageJPEG e < 0 then [ARLOGe ''Error saving video image.''] else [])"
  by (simp add: mainLoop_save_def Let_def)

lemma capture_calls:
  assumes "10 \<le> glutGet_ELAPSED_TIME e - ms_prev g" and "arVideoGetImage e = Some img"
    and "gARTImageSavePlease g \<noteq> 0"
  shows "\<exists>cs out rest.
            mainLoop e g = (cs, out) \<and>
            cs = ArVideoGetImage
                 # Sprintf 15 (''image-'' @ sprintf_04d (imageNumber g) @ ''.jpg'')
                 # ArVideoSaveImageJPEG (xsize (gARHandle g)) (ysize (gARHandle g))
                     (arPixelFormat (gARHandle g)) img
                     (''image-'' @ sprintf_04d (imageNumber g) @ ''.jpg'') 75 0
                 # (if arVideoSaveImageJPEG e < 0 then [ARLOGe ''Error saving video image.'']
                    else [])
                 @ ArDetectMarker img # rest \<and>
            (arDetectMarker e < 0 \<longrightarrow> out = Exit (- 1)) \<and>
            (\<not> arDetectMarker e < 0 \<longrightarrow>
               (\<exists>g'. out = Return g' \<and> gARTImageSavePlease g' = FALSE \<and>
                     imageNumber g' = imageNumber g + 1 \<and>
                     gCallCountMarkerDetect g' = gCallCountMarkerDetect g + 1))"
proof -
  from assms(1) have acc: "accepted e g" by (simp add: accepted_iff)
  let ?g1 = "(DrawObjUpdate (s_elapsed e g) (g\<lparr>ms_prev := glutGet_ELAPSED_TIME e\<rparr>))
               \<lparr>gARTImage := Some img\<rparr>"
  have g1: "gARTImageSavePlease ?g1 \<noteq> 0" "gARHandle ?g1 = gARHandle g"
    "imageNumber ?g1 = imageNumber g"
    using assms(3) by (simp_all add: DrawObjUpdate_eq)
  have saved: "fst (mainLoop_save e img ?g1) =
     Sprintf 15 (''image-'' @ sprintf_04d (imageNumber g) @ ''.jpg'')
     # ArVideoSaveImageJPEG (xsize (gARHandle g)) (ysize (gARHandle g))
         (arPixelFormat (gARHandle g)) img (''image-'' @ sprintf_04d (imageNumber g) @ ''.jpg'')
         75 0
     # (if arVideoSaveImageJPEG e < 0 then [ARLOGe ''Error saving video image.''] else [])"
    using mainLoop_save_fst [OF g1(1), of e img] by (simp only: g1(2,3))
  have frame: "gARTImageSavePlease (mainLoop_frame e img g) = FALSE"
    "imageNumber (mainLoop_frame e img g) = imageNumber g + 1"
    "gCallCountMarkerDetect (mainLoop_frame e img g) = gCallCountMarkerDetect g + 1"
    using assms(3) by (simp_all add: mainLoop_frame_eq)
  have tick: "\<exists>cs out rest.
            mainLoop e g = (cs, out) \<and>
            cs = ArVideoGetImage # fst (mainLoop_save e img ?g1) @ ArDetectMarker img # rest \<and>
            (arDetectMarker e < 0 \<longrightarrow> out = Exit (- 1)) \<and>
            (\<not> arDetectMarker e < 0 \<longrightarrow>
               (\<exists>g'. out = Return g' \<and> gARTImageSavePlease g' = FALSE \<and>
                     imageNumber g' = imageNumber g + 1 \<and>
                     gCallCountMarkerDetect g' = gCallCountMarkerDetect g + 1))"
  proof (cases "arDetectMarker e < 0")
    case True
    from mainLoop_detect_error [OF acc assms(2) True] True show ?thesis by simp
  next
    case False
    from mainLoop_detected [OF acc assms(2) False] False frame show ?thesis
      by (simp add: Let_def)
  qed
  then show ?thesis unfolding saved by simp
qed

lemma capture_in_range:
  assumes "10 \<le> glutGet_ELAPSED_TIME e - ms_prev g" and "arVideoGetImage e = Some img"
    and "gARTImageSavePlease g \<noteq> 0" and "0 \<le> imageNumber g" and "imageNumber g < 10000"
  shows "\<exists>cs out rest name.
            name = ''image-'' @
                   [''0123456789'' ! (nat (imageNumber g) div 1000),
                    ''0123456789'' ! (nat (imageNumber g) div 100 mod 10),
                    ''0123456789'' ! (nat (imageNumber g) div 10 mod 10),
                    ''0123456789'' ! (nat (imageNumber g) mod 10)] @ ''.jpg'' \<and>
            \<not> overrun (Sprintf 15 name) \<and>
            mainLoop e g = (cs, out) \<and>
            cs = ArVideoGetImage # Sprintf 15 name
                 # ArVideoSaveImageJPEG (xsize (gARHandle g)) (ysize (gARHandle g))
                     (arPixelFormat (gARHandle g)) img name 75 0
                 # (if arVideoSaveImageJPEG e < 0 then [ARLOGe ''Error saving video image.'']
                    else [])
                 @ ArDetectMarker img # rest \<and>
            (arDetectMarker e < 0 \<longrightarrow> out = Exit (- 1)) \<and>
            (\<not> arDetectMarker e < 0 \<longrightarrow>
               (\<exists>g'. out = Return g' \<and> gARTImageSavePlease g' = FALSE \<and>
                     imageNumber g' = imageNumber g + 1 \<and>
                     gCallCountMarkerDetect g' = gCallCountMarkerDetect g + 1))"
proof -
  let ?name = "''image-'' @
                   [''0123456789'' ! (nat (imageNumber g) div 1000),
                    ''0123456789'' ! (nat (imageNumber g) div 100 mod 10),
                    ''0123456789'' ! (nat (imageNumber g) div 10 mod 10),
                    ''0123456789'' ! (nat (imageNumber g) mod 10)] @ ''.jpg''"
  have n: "''image-'' @ sprintf_04d (imageNumber g) @ ''.jpg'' = ?name"
    by (simp only: sprintf_04d_digits [OF assms(4,5)])
  have fits: "\<not> overrun (Sprintf 15 ?name)" by (simp add: overrun_def)
  from capture_calls [OF assms(1-3)] fits show ?thesis unfolding n by blast
qed

lemma Keyboard_s:
  "Keyboard (CHR ''s'') g =
     ([], Return (if lnot (gARTImageSavePlease g) \<noteq> 0 then g\<lparr>gARTImageSavePlease := TRUE\<rparr>
                  else g))"
  by (simp add: Keyboard_def)

lemma reachable_request:
  assumes "reachable g"
  shows "\<exists>g'. reachable g' \<and> imageNumber g' = imageNumber g \<and> gARTImageSavePlease g' \<noteq> 0"
proof -
  let ?g' = "if lnot (gARTImageSavePlease g) \<noteq> 0 then g\<lparr>gARTImageSavePlease := TRUE\<rparr> else g"
  have "step (Key (CHR ''s'')) g = ([], Return ?g')" by (simp add: Keyboard_s)
  with assms have "reachable ?g'" by (rule reachable.after)
  moreover have "imageNumber ?g' = imageNumber g" by simp
  moreover have "gARTImageSavePlease ?g' \<noteq> 0" by (simp add: lnot_def TRUE_def)
  ultimately show ?thesis by blast
qed

lemma reachable_capture:
  assumes "reachable g" and "gARTImageSavePlease g \<noteq> 0"
  shows "\<exists>g'. reachable g' \<and> imageNumber g' = imageNumber g + 1"
proof -
  let ?e = "demo_tick (ms_prev g + 10) (Some 7) []"
  have h: "10 \<le> glutGet_ELAPSED_TIME ?e - ms_prev g" "arVideoGetImage ?e = Some 7"
    "\<not> arDetectMarker ?e < 0"
    by (simp_all add: demo_tick_def)
  from capture_calls [OF h(1,2) assms(2)] h(3)
  obtain cs g' where "mainLoop ?e g = (cs, Return g')" "imageNumber g' = imageNumber g + 1"
    by blast
  then have "step (Idle ?e) g = (cs, Return g')" by simp
  with assms(1) have "reachable g'" by (rule reachable.after)
  with \<open>imageNumber g' = imageNumber g + 1\<close> show ?thesis by blast
qed

lemma reachable_counter: "\<exists>g. reachable g \<and> imageNumber g = int n \<and> gARTImageSavePlease g \<noteq> 0"
proof (induction n)
  case 0
  have "imageNumber demo_globals = 0" by (simp add: demo_globals_def)
  with reachable_request [OF reachable_demo] show ?case by simp
next
  case (Suc n)
  then obtain g where g: "reachable g" "imageNumber g = int n" "gARTImageSavePlease g \<noteq> 0"
    by blast
  from reachable_capture [OF g(1,3)] g(2)
  obtain g' where g': "reachable g'" "imageNumber g' = int (Suc n)" by auto
  from reachable_request [OF g'(1)] g'(2) show ?case by auto
qed

text \<open>
  Claim C7. The code at the failing inputs. On an accepted tick with a frame and
  \<open>gARTImageSavePlease\<close> set, when the counter is 10000 or more, \<open>mainLoop\<close> calls
  \<open>sprintf\<close> on the 15 bytes of \<open>imageNumberText\<close> with a name of 15 characters or
  more: with the terminating zero the call writes past the end of the buffer, which is
  undefined behaviour, where the claim has the frame written and the tick go on. At 10000
  the name is \<open>image-10000.jpg\<close>, 16 bytes. For a counter from 0 to 9999 the tick does
  what the claim says and the name fits (lemma \<open>capture_in_range\<close>); the counter starts at
  0 and is never lowered (lemmas \<open>main_imageNumber\<close>, \<open>step_imageNumber\<close>).
\<close>

theorem capture_overrun:
  assumes "10 \<le> glutGet_ELAPSED_TIME e - ms_prev g" and "arVideoGetImage e = Some img"
    and "gARTImageSavePlease g \<noteq> 0" and "10000 \<le> imageNumber g"
  shows "(\<exists>rest. fst (mainLoop e g) =
            ArVideoGetImage # Sprintf 15 (''image-'' @ sprintf_04d (imageNumber g) @ ''.jpg'')
            # rest) \<and>
         overrun (Sprintf 15 (''image-'' @ sprintf_04d (imageNumber g) @ ''.jpg'')) \<and>
         16 \<le> length (''image-'' @ sprintf_04d (imageNumber g) @ ''.jpg'') + 1 \<and>
         (imageNumber g = 10000 \<longrightarrow>
            ''image-'' @ sprintf_04d (imageNumber g) @ ''.jpg'' = ''image-10000.jpg'')"
proof -
  from capture_calls [OF assms(1-3)]
  have calls: "\<exists>rest. fst (mainLoop e g) =
            ArVideoGetImage # Sprintf 15 (''image-'' @ sprintf_04d (imageNumber g) @ ''.jpg'')
            # rest"
    by auto
  from sprintf_04d_long [OF assms(4)]
  have long: "16 \<le> length (''image-'' @ sprintf_04d (imageNumber g) @ ''.jpg'') + 1"
    by simp
  then have over: "overrun (Sprintf 15 (''image-'' @ sprintf_04d (imageNumber g) @ ''.jpg''))"
    by (simp add: overrun_def)
  have name: "imageNumber g = 10000 \<longrightarrow>
            ''image-'' @ sprintf_04d (imageNumber g) @ ''.jpg'' = ''image-10000.jpg''"
    using sprintf_04d_examples by simp
  show ?thesis by (intro conjI) (rule calls over long name)+
qed

theorem capture_overrun_witness:
  "\<exists>g. reachable g \<and> gARTImageSavePlease g \<noteq> 0 \<and> imageNumber g = 10000 \<and>
        10 \<le> glutGet_ELAPSED_TIME (demo_tick (ms_prev g + 10) (Some 7) []) - ms_prev g \<and>
        arVideoGetImage (demo_tick (ms_prev g + 10) (Some 7) []) = Some 7 \<and>
        (\<exists>rest. fst (mainLoop (demo_tick (ms_prev g + 10) (Some 7) []) g) =
           ArVideoGetImage # Sprintf 15 ''image-10000.jpg'' # rest) \<and>
        overrun (Sprintf 15 ''image-10000.jpg'')"
proof -
  from reachable_counter [of 10000]
  obtain g where g: "reachable g" "imageNumber g = 10000" "gARTImageSavePlease g \<noteq> 0"
    by auto
  let ?e = "demo_tick (ms_prev g + 10) (Some 7) []"
  have h: "10 \<le> glutGet_ELAPSED_TIME ?e - ms_prev g" "arVideoGetImage ?e = Some 7"
    by (simp_all add: demo_tick_def)
  from g(2) have big: "10000 \<le> imageNumber g" by simp
  have n: "''image-'' @ sprintf_04d (imageNumber g) @ ''.jpg'' = ''image-10000.jpg''"
    using sprintf_04d_examples g(2) by simp
  from capture_overrun [OF h g(3) big]
  have "(\<exists>rest. fst (mainLoop ?e g) =
           ArVideoGetImage # Sprintf 15 ''image-10000.jpg'' # rest) \<and>
        overrun (Sprintf 15 ''image-10000.jpg'')"
    unfolding n by blast
  with g h show ?thesis by blast
qed

subsection \<open>Rotation\<close>

lemma mainLoop_angle:
  assumes "accepted e g" and "mainLoop e g = (cs, Return g')"
  shows "gDrawRotateAngle g' = advanced (s_elapsed e g) g"
proof -
  from mainLoop_Return [OF assms(2)] assms(1)
  consider "g' = g\<lparr>gDrawRotateAngle := advanced (s_elapsed e g) g,
                  ms_prev := glutGet_ELAPSED_TIME e\<rparr>"
    | img where "g' = (mainLoop_frame e img g)\<lparr>gPatt_found := FALSE\<rparr>"
    | img t where "g' = (mainLoop_frame e img g)\<lparr>gPatt_trans := t, gPatt_found := TRUE\<rparr>"
    by blast
  then show ?thesis by cases (simp_all add: mainLoop_frame_eq)
qed

text \<open>
  Claim C4, as amended. On an accepted tick that returns, with \<open>gDrawRotate\<close> set, the
  angle becomes the old angle plus 45 times the elapsed seconds, less 360 if that sum is
  greater than 360 (one subtraction); 1000 ms give 45 degrees. An angle that is not
  negative stays so, which holds in every reachable state. From an angle between 0 and
  360, a tick of at most 8 seconds leaves the angle between 0 and 360, both ends included.
\<close>

theorem rotation_step:
  assumes "10 \<le> glutGet_ELAPSED_TIME e - ms_prev g" and "gDrawRotate g \<noteq> 0"
    and "mainLoop e g = (cs, Return g')"
  shows "(let dt = real_of_int (glutGet_ELAPSED_TIME e - ms_prev g) / 1000;
              a = gDrawRotateAngle g + 45 * dt
          in gDrawRotateAngle g' = (if a > 360 then a - 360 else a) \<and>
             (glutGet_ELAPSED_TIME e - ms_prev g = 1000 \<longrightarrow> a = gDrawRotateAngle g + 45) \<and>
             (0 \<le> gDrawRotateAngle g \<longrightarrow> 0 \<le> gDrawRotateAngle g') \<and>
             (0 \<le> gDrawRotateAngle g \<and> gDrawRotateAngle g \<le> 360 \<and> dt \<le> 8 \<longrightarrow>
                0 \<le> gDrawRotateAngle g' \<and> gDrawRotateAngle g' \<le> 360) \<and>
             (reachable g \<longrightarrow> 0 \<le> gDrawRotateAngle g \<and> 0 \<le> gDrawRotateAngle g'))"
proof -
  from assms(1) have acc: "accepted e g" by (simp add: accepted_iff)
  have angle: "gDrawRotateAngle g' = advanced (s_elapsed e g) g"
    using acc assms(3) by (rule mainLoop_angle)
  have dt: "s_elapsed e g = real_of_int (glutGet_ELAPSED_TIME e - ms_prev g) / 1000"
    by (simp add: s_elapsed_def)
  have pos: "0 \<le> real_of_int (glutGet_ELAPSED_TIME e - ms_prev g) / 1000"
    using assms(1) by simp
  have inv: "reachable g \<longrightarrow> 0 \<le> gDrawRotateAngle g"
    using reachable_well_formed [of g] by (auto simp: well_formed_def)
  show ?thesis
    unfolding Let_def angle dt advanced_def using assms(2) pos inv
    by (auto simp: field_simps)
qed

theorem rotation_step_witness:
  "10 \<le> glutGet_ELAPSED_TIME (demo_tick 1000 None []) - ms_prev demo_globals \<and>
   gDrawRotate demo_globals \<noteq> 0 \<and>
   mainLoop (demo_tick 1000 None []) demo_globals =
     ([ArVideoGetImage], Return (demo_globals\<lparr>gDrawRotateAngle := 45, ms_prev := 1000\<rparr>)) \<and>
   gDrawRotateAngle (demo_globals\<lparr>gDrawRotateAngle := 45, ms_prev := 1000\<rparr>) =
     gDrawRotateAngle demo_globals + 45 \<and>
   0 \<le> gDrawRotateAngle (demo_globals\<lparr>gDrawRotateAngle := 45, ms_prev := 1000\<rparr>) \<and>
   gDrawRotateAngle (demo_globals\<lparr>gDrawRotateAngle := 45, ms_prev := 1000\<rparr>) \<le> 360"
proof -
  let ?e = "demo_tick 1000 None []"
  let ?g' = "demo_globals\<lparr>gDrawRotateAngle := 45, ms_prev := 1000\<rparr>"
  have h: "10 \<le> glutGet_ELAPSED_TIME ?e - ms_prev demo_globals" "gDrawRotate demo_globals \<noteq> 0"
    by (simp_all add: demo_tick_def demo_globals_def)
  have run: "mainLoop ?e demo_globals = ([ArVideoGetImage], Return ?g')"
    by (simp add: mainLoop_def Let_def demo_tick_def demo_globals_def DrawObjUpdate_def)
  have d: "glutGet_ELAPSED_TIME ?e - ms_prev demo_globals = 1000"
    "gDrawRotateAngle demo_globals = 0"
    by (simp_all add: demo_tick_def demo_globals_def)
  from rotation_step [OF h run] d h run show ?thesis
    unfolding Let_def by simp
qed

text \<open>
  The claim as stated fails: from the starting state, a first tick at 20000 ms leaves the
  angle at 540, and one at 8000 ms leaves it at 360. All numbers involved are exact in
  float arithmetic as well (20000 and 8000 times 0.001f round to 20 and 8).
\<close>

theorem rotation_counterexample:
  "reachable demo_globals \<and> gDrawRotate demo_globals = 1 \<and>
   gDrawRotateAngle demo_globals = 0 \<and>
   mainLoop (demo_tick 20000 None []) demo_globals =
     ([ArVideoGetImage], Return (demo_globals\<lparr>gDrawRotateAngle := 540, ms_prev := 20000\<rparr>)) \<and>
   reachable (demo_globals\<lparr>gDrawRotateAngle := 540, ms_prev := 20000\<rparr>) \<and>
   \<not> gDrawRotateAngle (demo_globals\<lparr>gDrawRotateAngle := 540, ms_prev := 20000\<rparr>) < 360 \<and>
   mainLoop (demo_tick 8000 None []) demo_globals =
     ([ArVideoGetImage], Return (demo_globals\<lparr>gDrawRotateAngle := 360, ms_prev := 8000\<rparr>)) \<and>
   \<not> gDrawRotateAngle (demo_globals\<lparr>gDrawRotateAngle := 360, ms_prev := 8000\<rparr>) < 360"
proof -
  have a: "mainLoop (demo_tick 20000 None []) demo_globals =
     ([ArVideoGetImage], Return (demo_globals\<lparr>gDrawRotateAngle := 540, ms_prev := 20000\<rparr>))"
    by (simp add: mainLoop_def Let_def demo_tick_def demo_globals_def DrawObjUpdate_def)
  have b: "mainLoop (demo_tick 8000 None []) demo_globals =
     ([ArVideoGetImage], Return (demo_globals\<lparr>gDrawRotateAngle := 360, ms_prev := 8000\<rparr>))"
    by (simp add: mainLoop_def Let_def demo_tick_def demo_globals_def DrawObjUpdate_def)
  have "step (Idle (demo_tick 20000 None [])) demo_globals =
     ([ArVideoGetImage], Return (demo_globals\<lparr>gDrawRotateAngle := 540, ms_prev := 20000\<rparr>))"
    using a by simp
  with reachable_demo
  have r: "reachable (demo_globals\<lparr>gDrawRotateAngle := 540, ms_prev := 20000\<rparr>)"
    by (rule reachable.after)
  have c: "gDrawRotate demo_globals = 1" "gDrawRotateAngle demo_globals = 0"
    by (simp_all add: demo_globals_def)
  from reachable_demo a b r c show ?thesis by simp
qed

subsection \<open>The pose solver\<close>




lemma demo_tick_fields:
  "glutGet_ELAPSED_TIME (demo_tick ms img mi) = ms"
  "arVideoGetImage (demo_tick ms img mi) = img"
  "arVideoSaveImageJPEG (demo_tick ms img mi) = 0"
  "arDetectMarker (demo_tick ms img mi) = 0"
  "markerInfo (demo_tick ms img mi) = mi"
  "arGetTransMatSquare (demo_tick ms img mi) = demo_solver 0"
  by (simp_all add: demo_tick_def)



subsection \<open>Sizes\<close>

lemma mainLoop_save_calls: "ArGetTransMatSquare m w \<notin> set (fst (mainLoop_save e img g))"
  by (simp add: mainLoop_save_def Let_def)

lemma mainLoop_solver_width:
  assumes "ArGetTransMatSquare m w \<in> set (fst (mainLoop e g))"
  shows "w = gPatt_width"
proof (cases "accepted e g")
  case False
  with assms show ?thesis by (simp add: mainLoop_rejected)
next
  case acc: True
  show ?thesis
  proof (cases "arVideoGetImage e")
    case None
    with acc assms show ?thesis by (simp add: mainLoop_no_frame)
  next
    case (Some img)
    show ?thesis
    proof (cases "arDetectMarker e < 0")
      case True
      with acc Some assms show ?thesis
        by (simp add: mainLoop_detect_error mainLoop_save_calls)
    next
      case False
      from mainLoop_detected [OF acc Some False] assms show ?thesis
        by (simp add: Let_def mainLoop_save_calls split: if_splits)
    qed
  qed
qed

lemma main_scale:
  "glmReadOBJ su \<noteq> None \<Longrightarrow>
   take 3 (fst (main su)) = [GlmReadOBJ ''Data/bunny.obj'', GlmUnitize, GlmScale 60]"
  by (auto simp: main_def main_load_def markerSize_def split: option.splits prod.splits)

lemma Display_found:
  "gPatt_found g \<noteq> 0 \<Longrightarrow> \<exists>pre post. fst (Display g) = pre @ DrawObj g @ post"
proof -
  assume "gPatt_found g \<noteq> 0"
  then have "fst (Display g) =
      ([Other ''glDrawBuffer(GL_BACK)'',
       Other ''glClear(GL_COLOR_BUFFER_BIT | GL_DEPTH_BUFFER_BIT)'',
       ArglDispImage (gARTImage g) 1.0,
       ArglCameraFrustumRH VIEW_DISTANCE_MIN VIEW_DISTANCE_MAX,
       Other ''glMatrixMode(GL_PROJECTION)'',
       Other ''glLoadMatrix(p)'',
       Other ''glMatrixMode(GL_MODELVIEW)'',
       Other ''glLoadIdentity()'',
       Other ''glEnable(GL_LIGHTING)'',
       Other ''glEnable(GL_LIGHT0)'',
       Other ''glEnable(GL_DEPTH_TEST)'',
       ArglCameraViewRH (gPatt_trans g) VIEW_SCALEFACTOR,
       Other ''glLoadMatrix(m)''])
      @ DrawObj g
      @ ([Other ''glMatrixMode(GL_PROJECTION)'',
         Other ''glLoadIdentity()'',
         GlOrtho 0 (real_of_int (windowWidth g)) 0 (real_of_int (windowHeight g)) (- 1.0) 1.0,
         Other ''glMatrixMode(GL_MODELVIEW)'',
         Other ''glLoadIdentity()'',
         Other ''glDisable(GL_LIGHTING)'',
         Other ''glDisable(GL_DEPTH_TEST)'']
      @ (if gShowMode g \<noteq> 0 then [PrintMode] else [])
      @ (if gShowHelp g \<noteq> 0 then (if gShowHelp g = 1 then [PrintHelpKeys] else []) else [])
      @ [Other ''glutSwapBuffers()''])"
    by (simp add: Display_def)
  then show ?thesis by blast
qed

lemma Display_not_found:
  "gPatt_found g = 0 \<Longrightarrow> GlmDraw ''GLM_SMOOTH | GLM_MATERIAL'' \<notin> set (fst (Display g))"
  by (simp add: Display_def)

text \<open>
  Claim C3, as amended. The marker edge length given to the pose solver is
  \<open>gPatt_width\<close>, 80. The drawing uses another constant, \<open>markerSize\<close>, 40: once
  the mesh is read, \<open>main\<close> unitizes it and scales it by 1.5 times \<open>markerSize\<close>,
  60; \<open>DrawObj\<close> pushes the matrix, rotates by the angle about the z axis, translates
  by half of \<open>markerSize\<close>, 20, along z, draws the mesh and pops; \<open>Display\<close> makes
  these calls when \<open>gPatt_found\<close> is set and does not draw the mesh otherwise.
\<close>

theorem marker_and_mesh_sizes:
  "gPatt_width = 80 \<and> markerSize = 40 \<and>
   (\<forall>m w. ArGetTransMatSquare m w \<in> set (fst (mainLoop e g)) \<longrightarrow> w = 80) \<and>
   (glmReadOBJ su \<noteq> None \<longrightarrow>
      take 3 (fst (main su)) = [GlmReadOBJ ''Data/bunny.obj'', GlmUnitize, GlmScale 60]) \<and>
   DrawObj g =
     [GlPushMatrix, GlRotatef (gDrawRotateAngle g) 0 0 1, GlTranslatef 0 0 20,
      GlmDraw ''GLM_SMOOTH | GLM_MATERIAL'', GlPopMatrix] \<and>
   (gPatt_found g \<noteq> 0 \<longrightarrow> (\<exists>pre post. fst (Display g) = pre @ DrawObj g @ post)) \<and>
   (gPatt_found g = 0 \<longrightarrow> GlmDraw ''GLM_SMOOTH | GLM_MATERIAL'' \<notin> set (fst (Display g)))"
proof (intro conjI allI impI)
  show "gPatt_width = 80" by (simp add: gPatt_width_def)
  show "markerSize = 40" by (simp add: markerSize_def)
  show "w = 80" if "ArGetTransMatSquare m w \<in> set (fst (mainLoop e g))" for m w
    using mainLoop_solver_width [OF that] by (simp add: gPatt_width_def)
  show "take 3 (fst (main su)) = [GlmReadOBJ ''Data/bunny.obj'', GlmUnitize, GlmScale 60]"
    if "glmReadOBJ su \<noteq> None" using that by (rule main_scale)
  show "DrawObj g =
     [GlPushMatrix, GlRotatef (gDrawRotateAngle g) 0 0 1, GlTranslatef 0 0 20,
      GlmDraw ''GLM_SMOOTH | GLM_MATERIAL'', GlPopMatrix]"
    by (simp add: DrawObj_def markerSize_def)
  show "\<exists>pre post. fst (Display g) = pre @ DrawObj g @ post" if "gPatt_found g \<noteq> 0"
    using that by (rule Display_found)
  show "GlmDraw ''GLM_SMOOTH | GLM_MATERIAL'' \<notin> set (fst (Display g))" if "gPatt_found g = 0"
    using that by (rule Display_not_found)
qed

theorem marker_and_mesh_sizes_witness:
  "glmReadOBJ demo_startup \<noteq> None \<and>
   take 3 (fst (main demo_startup)) = [GlmReadOBJ ''Data/bunny.obj'', GlmUnitize, GlmScale 60] \<and>
   gPatt_found (demo_globals\<lparr>gPatt_found := 1\<rparr>) \<noteq> 0 \<and>
   (\<exists>pre post. fst (Display (demo_globals\<lparr>gPatt_found := 1\<rparr>)) =
      pre @ [GlPushMatrix, GlRotatef 0 0 0 1, GlTranslatef 0 0 20,
             GlmDraw ''GLM_SMOOTH | GLM_MATERIAL'', GlPopMatrix] @ post) \<and>
   gPatt_found demo_globals = 0 \<and>
   GlmDraw ''GLM_SMOOTH | GLM_MATERIAL'' \<notin> set (fst (Display demo_globals))"
proof -
  let ?g = "demo_globals\<lparr>gPatt_found := 1\<rparr>"
  have h: "glmReadOBJ demo_startup \<noteq> None" "gPatt_found ?g \<noteq> 0" "gPatt_found demo_globals = 0"
    "gDrawRotateAngle ?g = 0"
    by (simp_all add: demo_startup_def demo_globals_def)
  from marker_and_mesh_sizes [of "demo_tick 1000 None []" ?g demo_startup] h
  have a: "take 3 (fst (main demo_startup)) =
             [GlmReadOBJ ''Data/bunny.obj'', GlmUnitize, GlmScale 60]"
    and d: "DrawObj ?g = [GlPushMatrix, GlRotatef 0 0 0 1, GlTranslatef 0 0 20,
             GlmDraw ''GLM_SMOOTH | GLM_MATERIAL'', GlPopMatrix]"
    and ex: "\<exists>pre post. fst (Display ?g) = pre @ DrawObj ?g @ post"
    by (simp, simp, blast)
  from ex have b: "\<exists>pre post. fst (Display ?g) =
      pre @ [GlPushMatrix, GlRotatef 0 0 0 1, GlTranslatef 0 0 20,
             GlmDraw ''GLM_SMOOTH | GLM_MATERIAL'', GlPopMatrix] @ post"
    unfolding d .
  from marker_and_mesh_sizes [of "demo_tick 1000 None []" demo_globals demo_startup] h(3)
  have c: "GlmDraw ''GLM_SMOOTH | GLM_MATERIAL'' \<notin> set (fst (Display demo_globals))"
    by blast
  from h(1-3) a b c show ?thesis by (intro conjI)
qed

text \<open>
  The claim as stated fails: the scale is 60, not 1.5 times the marker edge length (120),
  and the translation is 20, not half the marker edge length (40).
\<close>

theorem marker_and_mesh_sizes_counterexample:
  "1.5 * gPatt_width = 120 \<and> gPatt_width / 2 = 40 \<and>
   take 3 (fst (main demo_startup)) = [GlmReadOBJ ''Data/bunny.obj'', GlmUnitize, GlmScale 60] \<and>
   GlmScale (1.5 * gPatt_width) \<notin> set (fst (main demo_startup)) \<and>
   DrawObj (demo_globals\<lparr>gPatt_found := 1\<rparr>) =
     [GlPushMatrix, GlRotatef 0 0 0 1, GlTranslatef 0 0 20,
      GlmDraw ''GLM_SMOOTH | GLM_MATERIAL'', GlPopMatrix] \<and>
   GlTranslatef 0 0 (gPatt_width / 2) \<notin> set (fst (Display (demo_globals\<lparr>gPatt_found := 1\<rparr>)))"
proof (intro conjI)
  show "1.5 * gPatt_width = 120" "gPatt_width / 2 = 40"
    by (simp_all add: gPatt_width_def)
  show "take 3 (fst (main demo_startup)) =
          [GlmReadOBJ ''Data/bunny.obj'', GlmUnitize, GlmScale 60]"
    by (rule main_scale) (simp add: demo_startup_def)
  show "GlmScale (1.5 * gPatt_width) \<notin> set (fst (main demo_startup))"
    by (simp add: main_demo main_load_def main_window_def main_register_def gPatt_width_def
        markerSize_def)
  show "DrawObj (demo_globals\<lparr>gPatt_found := 1\<rparr>) =
     [GlPushMatrix, GlRotatef 0 0 0 1, GlTranslatef 0 0 20,
      GlmDraw ''GLM_SMOOTH | GLM_MATERIAL'', GlPopMatrix]"
    by (simp add: DrawObj_def markerSize_def demo_globals_def)
  show "GlTranslatef 0 0 (gPatt_width / 2) \<notin>
          set (fst (Display (demo_globals\<lparr>gPatt_found := 1\<rparr>)))"
    by (simp add: Display_def DrawObj_def markerSize_def gPatt_width_def)
qed

subsection \<open>Fatal detector error\<close>

text \<open>
  Claim C9. The code at the failing input: on an accepted tick with a frame for which
  \<open>arDetectMarker\<close> returns a negative value, \<open>mainLoop\<close> exits with status -1
  after the call of the detector, and makes no call of \<open>cleanup\<close>. The quit key and
  the failure of \<open>setupMarker\<close> in \<open>main\<close> do make them before they exit; the
  failure of \<open>setupCamera\<close> does not.
\<close>

theorem detector_error_exit:
  "mainLoop ((demo_tick 1000 (Some 7) [])\<lparr>arDetectMarker := - 1\<rparr>) demo_globals =
     ([ArVideoGetImage, ArDetectMarker 7], Exit (- 1)) \<and>
   Keyboard (CHR ''q'') demo_globals =
     ([ArglCleanup, ArPattDetach, ArPattDeleteHandle, ArVideoCapStop, Ar3DDeleteHandle,
       ArDeleteHandle, ArParamLTFree, ArVideoClose, GlmDelete], Exit 0) \<and>
   main (demo_startup\<lparr>arPattLoad := - 1\<rparr>) =
     (main_load @
      [ARLOGe ''setupMarker(): Error loading pattern file.'', ArPattDeleteHandle,
       ARLOGe ''main(): Unable to set up AR marker.'',
       ArglCleanup, ArPattDetach, ArPattDeleteHandle, ArVideoCapStop, Ar3DDeleteHandle,
       ArDeleteHandle, ArParamLTFree, ArVideoClose, GlmDelete], Exit (- 1)) \<and>
   main (demo_startup\<lparr>arVideoOpen := - 1\<rparr>) =
     (main_load @
      [ARLOGe ''setupCamera(): Unable to open connection to camera.'',
       ARLOGe ''main(): Unable to set up AR camera.''], Exit (- 1))"
proof (intro conjI)
  show "mainLoop ((demo_tick 1000 (Some 7) [])\<lparr>arDetectMarker := - 1\<rparr>) demo_globals =
     ([ArVideoGetImage, ArDetectMarker 7], Exit (- 1))"
    by (simp add: mainLoop_def Let_def demo_tick_def demo_globals_def DrawObjUpdate_def
        mainLoop_save_def)
  show "Keyboard (CHR ''q'') demo_globals =
     ([ArglCleanup, ArPattDetach, ArPattDeleteHandle, ArVideoCapStop, Ar3DDeleteHandle,
       ArDeleteHandle, ArParamLTFree, ArVideoClose, GlmDelete], Exit 0)"
    by (simp add: Keyboard_def cleanup_def demo_globals_def)
  show "main (demo_startup\<lparr>arPattLoad := - 1\<rparr>) =
     (main_load @
      [ARLOGe ''setupMarker(): Error loading pattern file.'', ArPattDeleteHandle,
       ARLOGe ''main(): Unable to set up AR marker.'',
       ArglCleanup, ArPattDetach, ArPattDeleteHandle, ArVideoCapStop, Ar3DDeleteHandle,
       ArDeleteHandle, ArParamLTFree, ArVideoClose, GlmDelete], Exit (- 1))"
    by (simp add: main_def demo_startup_def setupCamera_def setupMarker_def cleanup_def
        AR_PIXEL_FORMAT_INVALID_def)
  show "main (demo_startup\<lparr>arVideoOpen := - 1\<rparr>) =
     (main_load @
      [ARLOGe ''setupCamera(): Unable to open connection to camera.'',
       ARLOGe ''main(): Unable to set up AR camera.''], Exit (- 1))"
    by (simp add: main_def demo_startup_def setupCamera_def)
qed

subsection \<open>Toggles and rings\<close>

lemma Keyboard_help:
  "Keyboard (CHR ''?'') g =
     ([], Return (g\<lparr>gShowHelp := (if gShowHelp g + 1 > 1 then 0 else gShowHelp g + 1)\<rparr>))"
  "Keyboard (CHR ''/'') g =
     ([], Return (g\<lparr>gShowHelp := (if gShowHelp g + 1 > 1 then 0 else gShowHelp g + 1)\<rparr>))"
  by (simp_all add: Keyboard_def Let_def)

lemma Keyboard_mode: "Keyboard (CHR ''m'') g = ([], Return (g\<lparr>gShowMode := lnot (gShowMode g)\<rparr>))"
  by (simp add: Keyboard_def)

lemma Keyboard_space:
  "Keyboard (CHR '' '') g = ([], Return (g\<lparr>gDrawRotate := lnot (gDrawRotate g)\<rparr>))"
  by (simp add: Keyboard_def)

lemma Keyboard_a:
  "Keyboard (CHR ''a'') g =
     ([], Return (g\<lparr>gARHandle := (gARHandle g)\<lparr>arLabelingThreshMode :=
        (case arLabelingThreshMode (gARHandle g) of
           AR_LABELING_THRESH_MODE_MANUAL \<Rightarrow> AR_LABELING_THRESH_MODE_AUTO_MEDIAN
         | AR_LABELING_THRESH_MODE_AUTO_MEDIAN \<Rightarrow> AR_LABELING_THRESH_MODE_AUTO_OTSU
         | AR_LABELING_THRESH_MODE_AUTO_OTSU \<Rightarrow> AR_LABELING_THRESH_MODE_AUTO_ADAPTIVE
         | AR_LABELING_THRESH_MODE_AUTO_ADAPTIVE \<Rightarrow> AR_LABELING_THRESH_MODE_MANUAL
         | AR_LABELING_THRESH_MODE_unnamed \<Rightarrow> AR_LABELING_THRESH_MODE_MANUAL)\<rparr>\<rparr>))"
  by (simp add: Keyboard_def Let_def)

lemma Keyboard_x:
  "Keyboard (CHR ''x'') g =
     ([], Return (g\<lparr>gARHandle := (gARHandle g)\<lparr>arImageProcMode :=
        (case arImageProcMode (gARHandle g) of
           AR_IMAGE_PROC_FRAME_IMAGE \<Rightarrow> AR_IMAGE_PROC_FIELD_IMAGE
         | AR_IMAGE_PROC_FIELD_IMAGE \<Rightarrow> AR_IMAGE_PROC_FRAME_IMAGE
         | AR_IMAGE_PROC_unnamed \<Rightarrow> AR_IMAGE_PROC_FRAME_IMAGE)\<rparr>\<rparr>))"
  by (simp add: Keyboard_def Let_def)

lemma Keyboard_c:
  "Keyboard (CHR ''c'') g =
     ([ARLOGe ''*** Camera - %f (frame/sec)'', ArUtilTimerReset],
      Return (g\<lparr>gArglSettings :=
                   (if arglDrawMode (gArglSettings g) = AR_DRAW_BY_GL_DRAW_PIXELS then
                      (gArglSettings g)\<lparr>arglDrawMode := AR_DRAW_BY_TEXTURE_MAPPING,
                        arglTexmapMode := AR_DRAW_TEXTURE_FULL_IMAGE\<rparr>
                    else if arglTexmapMode (gArglSettings g) = AR_DRAW_TEXTURE_FULL_IMAGE then
                      (gArglSettings g)\<lparr>arglTexmapMode := AR_DRAW_TEXTURE_HALF_IMAGE\<rparr>
                    else (gArglSettings g)\<lparr>arglDrawMode := AR_DRAW_BY_GL_DRAW_PIXELS\<rparr>),
                 gCallCountMarkerDetect := 0\<rparr>))"
  by (simp add: Keyboard_def Let_def)

lemma help_twice:
  assumes "gShowHelp g = 0 \<or> gShowHelp g = 1"
  shows "run [Key (CHR ''?''), Key (CHR ''?'')] g = Return g"
    and "run [Key (CHR ''/''), Key (CHR ''/'')] g = Return g"
  using assms by (auto simp: Keyboard_help)

lemma mode_twice:
  assumes "gShowMode g = 0 \<or> gShowMode g = 1"
  shows "run [Key (CHR ''m''), Key (CHR ''m'')] g = Return g"
  using assms by (auto simp: Keyboard_mode lnot_def)

lemma rotate_twice:
  assumes "gDrawRotate g = 0 \<or> gDrawRotate g = 1"
  shows "run [Key (CHR '' ''), Key (CHR '' '')] g = Return g"
  using assms by (auto simp: Keyboard_space lnot_def)

lemma thresh_mode_four_times:
  assumes "arLabelingThreshMode (gARHandle g) \<noteq> AR_LABELING_THRESH_MODE_unnamed"
  shows "run [Key (CHR ''a''), Key (CHR ''a''), Key (CHR ''a''), Key (CHR ''a'')] g = Return g"
  using assms by (cases "arLabelingThreshMode (gARHandle g)") (simp_all add: Keyboard_a)

lemma image_proc_twice:
  assumes "arImageProcMode (gARHandle g) \<noteq> AR_IMAGE_PROC_unnamed"
  shows "run [Key (CHR ''x''), Key (CHR ''x'')] g = Return g"
  using assms by (cases "arImageProcMode (gARHandle g)") (simp_all add: Keyboard_x)

lemma draw_mode_three_times:
  "\<exists>g'. run [Key (CHR ''c''), Key (CHR ''c''), Key (CHR ''c'')] g = Return g' \<and>
         printMode_draw (gArglSettings g') = printMode_draw (gArglSettings g) \<and>
         (\<not> (arglDrawMode (gArglSettings g) = AR_DRAW_BY_GL_DRAW_PIXELS \<and>
             arglTexmapMode (gArglSettings g) = AR_DRAW_TEXTURE_FULL_IMAGE) \<longrightarrow>
            gArglSettings g' = gArglSettings g)"
proof -
  obtain d t where a: "gArglSettings g = \<lparr>arglDrawMode = d, arglTexmapMode = t\<rparr>"
    by (cases "gArglSettings g") simp
  show ?thesis
    by (cases d; cases t) (simp_all add: Keyboard_c a printMode_draw_def)
qed

text \<open>
  Claim C8. In every reachable state: two presses of \<open>?\<close>, of \<open>/\<close>, of \<open>m\<close> or
  of the space bar, four presses of \<open>a\<close> and two presses of \<open>x\<close> each return
  the state as it was. Three presses of \<open>c\<close> return a state whose draw mode, as the
  mode panel names it (pixel copy, full-image texture, half-image texture), is as it was;
  the renderer's two settings themselves are as they were unless they started as pixel
  copy with the full-image texture mode, the one combination outside the cycle.
\<close>

theorem toggles_and_rings:
  assumes "reachable g"
  shows "run [Key (CHR ''?''), Key (CHR ''?'')] g = Return g \<and>
         run [Key (CHR ''/''), Key (CHR ''/'')] g = Return g \<and>
         run [Key (CHR ''m''), Key (CHR ''m'')] g = Return g \<and>
         run [Key (CHR '' ''), Key (CHR '' '')] g = Return g \<and>
         run [Key (CHR ''a''), Key (CHR ''a''), Key (CHR ''a''), Key (CHR ''a'')] g = Return g \<and>
         run [Key (CHR ''x''), Key (CHR ''x'')] g = Return g \<and>
         (\<exists>g'. run [Key (CHR ''c''), Key (CHR ''c''), Key (CHR ''c'')] g = Return g' \<and>
               printMode_draw (gArglSettings g') = printMode_draw (gArglSettings g) \<and>
               (\<not> (arglDrawMode (gArglSettings g) = AR_DRAW_BY_GL_DRAW_PIXELS \<and>
                   arglTexmapMode (gArglSettings g) = AR_DRAW_TEXTURE_FULL_IMAGE) \<longrightarrow>
                  gArglSettings g' = gArglSettings g))"
proof -
  from assms have wf: "well_formed g" by (rule reachable_well_formed)
  then have flags: "gShowHelp g = 0 \<or> gShowHelp g = 1" "gShowMode g = 0 \<or> gShowMode g = 1"
    "gDrawRotate g = 0 \<or> gDrawRotate g = 1"
    and modes: "arLabelingThreshMode (gARHandle g) \<noteq> AR_LABELING_THRESH_MODE_unnamed"
      "arImageProcMode (gARHandle g) \<noteq> AR_IMAGE_PROC_unnamed"
    by (simp_all add: well_formed_def default_ARHandle_def)
  show ?thesis
    by (intro conjI help_twice mode_twice rotate_twice thresh_mode_four_times
        image_proc_twice draw_mode_three_times flags modes)
qed

theorem toggles_and_rings_witness:
  "reachable demo_globals \<and>
   run [Key (CHR ''?''), Key (CHR ''?'')] demo_globals = Return demo_globals \<and>
   run [Key (CHR ''/''), Key (CHR ''/'')] demo_globals = Return demo_globals \<and>
   run [Key (CHR ''m''), Key (CHR ''m'')] demo_globals = Return demo_globals \<and>
   run [Key (CHR '' ''), Key (CHR '' '')] demo_globals = Return demo_globals \<and>
   run [Key (CHR ''a''), Key (CHR ''a''), Key (CHR ''a''), Key (CHR ''a'')] demo_globals =
     Return demo_globals \<and>
   run [Key (CHR ''x''), Key (CHR ''x'')] demo_globals = Return demo_globals \<and>
   (\<exists>g'. run [Key (CHR ''c''), Key (CHR ''c''), Key (CHR ''c'')] demo_globals = Return g' \<and>
         gArglSettings g' = gArglSettings demo_globals)"
proof -
  have "\<not> (arglDrawMode (gArglSettings demo_globals) = AR_DRAW_BY_GL_DRAW_PIXELS \<and>
          arglTexmapMode (gArglSettings demo_globals) = AR_DRAW_TEXTURE_FULL_IMAGE)"
    by (simp add: demo_globals_def)
  with toggles_and_rings [OF reachable_demo] reachable_demo show ?thesis by blast
qed

lemma draw_mode_ring_example:
  "run [Key (CHR ''c'')] demo_globals =
     Return (demo_globals\<lparr>gArglSettings := \<lparr>arglDrawMode = AR_DRAW_BY_TEXTURE_MAPPING,
                                            arglTexmapMode = AR_DRAW_TEXTURE_HALF_IMAGE\<rparr>\<rparr>) \<and>
   run [Key (CHR ''c''), Key (CHR ''c'')] demo_globals =
     Return (demo_globals\<lparr>gArglSettings := \<lparr>arglDrawMode = AR_DRAW_BY_GL_DRAW_PIXELS,
                                            arglTexmapMode = AR_DRAW_TEXTURE_HALF_IMAGE\<rparr>\<rparr>) \<and>
   run [Key (CHR ''c''), Key (CHR ''c''), Key (CHR ''c'')] demo_globals = Return demo_globals"
  by (simp add: Keyboard_c demo_globals_def)


end
